theory Spec2Isabelle
  imports Complex_Main
begin

section \<open>PiThermalCam: sequential\_versions/matplotlib\_therm\_cam.py\<close>

text \<open>
  The script reads 24 x 32 temperature frames from an MLX90640 sensor and shows them
  with matplotlib. Python floats are modelled as \<^typ>\<open>real\<close> numbers: arithmetic is
  exact, there is no rounding, no infinity and no NaN. Python lists and one-dimensional
  numpy arrays are HOL lists, a two-dimensional array is a list of rows.
\<close>

subsection \<open>Exceptions\<close>

text \<open>
  The exceptions that occur in the script: \<open>ValueError\<close> is the one the script catches;
  \<open>RuntimeError\<close> stands for what the sensor driver raises otherwise;
  \<open>NoSectionError\<close> and \<open>NoOptionError\<close> come from \<open>configparser\<close>.
\<close>

datatype exn = ValueError | RuntimeError | NoSectionError | NoOptionError

subsection \<open>Pure helpers\<close>

text \<open>\<^verbatim>\<open>def c_to_f(temp): return (9.0 / 5.0) * temp + 32.0\<close>\<close>

definition c_to_f :: "real \<Rightarrow> real" where
  "c_to_f temp = (9 / 5) * temp + 32"

text \<open>\<open>np.mean\<close> of a one-dimensional array: the sum divided by the number of elements.\<close>

definition np_mean :: "real list \<Rightarrow> real" where
  "np_mean a = sum_list a / real (length a)"

text \<open>
  \<open>np.reshape(a, (r, c))\<close> in row-major order: row \<open>i\<close> holds the elements
  \<open>i * c, ..., i * c + c - 1\<close>; numpy raises \<open>ValueError\<close> when the sizes disagree.
\<close>

definition np_reshape :: "'a list \<Rightarrow> nat \<times> nat \<Rightarrow> exn + 'a list list" where
  "np_reshape a shape =
     (case shape of (r, c) \<Rightarrow>
        if length a = r * c
        then Inr (map (\<lambda>i. take c (drop (i * c) a)) [0..<r])
        else Inl ValueError)"

text \<open>\<open>np.fliplr\<close>: every row reversed.\<close>

definition np_fliplr :: "'a list list \<Rightarrow> 'a list list" where
  "np_fliplr m = map rev m"

text \<open>\<open>mlx_shape = (24, 32)\<close> in every mode.\<close>

definition mlx_shape :: "nat \<times> nat" where
  "mlx_shape = (24, 32)"

subsection \<open>The outside world\<close>

text \<open>
  The sensor driver, the clock, \<open>scipy.ndimage.zoom\<close> and the parsed configuration are
  external. The environment fixes what they answer: \<open>sensor env k\<close> is the outcome of
  the \<open>k\<close>-th call of \<open>mlx.getFrame\<close> of the process (temperatures by pixel number, or
  an exception), \<open>monotonic env k\<close> the value of the \<open>k\<close>-th call of
  \<open>time.monotonic()\<close>, and \<open>zoom env\<close> the interpolation.
\<close>

datatype reading = Frame "nat \<Rightarrow> real" | Raises exn

record env =
  sensor :: "nat \<Rightarrow> reading"
  monotonic :: "nat \<Rightarrow> real"
  zoom :: "real list list \<Rightarrow> nat \<Rightarrow> real list list"

text \<open>
  A parsed configuration file, seen through the two methods the script calls:
  \<open>config.sections()\<close> and \<open>config.get(section, option, raw=True)\<close>.
\<close>

record config =
  cfg_sections :: "string list"
  cfg_get :: "string \<Rightarrow> string \<Rightarrow> exn + string"

text \<open>
  What the script does to the outside, one event per call, oldest first. Logger calls
  are recorded whatever the level of the logger is. The calls that set a figure up
  (\<open>plt.subplots\<close>, \<open>imshow\<close> of zeros, \<open>colorbar\<close>, \<open>set_label\<close>, \<open>canvas.draw\<close>,
  \<open>copy_from_bbox\<close>, \<open>fig.show\<close>) leave no event, and toolkit calls do not raise.
  \<open>Print_rate None\<close> is the rate printed when the sum of the timings is zero (the
  float division then gives \<open>inf\<close> or \<open>nan\<close> with a warning, not an exception).
\<close>

datatype event =
    Log_debug string "string list"
  | Log_info string
  | Refresh_rate nat
  | Print_mean real real
  | Print_rate "real option"
  | Print_text string
  | Set_data "real list list"
  | Set_clim real real
  | Colorbar_changed
  | Pause
  | Restore_region
  | Draw_artist
  | Blit
  | Flush_events
  | Savefig string
  | Profile_enable
  | Profile_disable
  | Dump_stats string
  | Print_stats string nat

text \<open>
  The state of the world: how many frames and clock values have been asked for, and
  the events so far. The local variables of the modes extend it: \<open>frame\<close> (every
  mode), \<open>t_array\<close> (the two live modes), \<open>last_update\<close> and \<open>count\<close>
  (\<open>interpolated_camera_read\<close>).
\<close>

record world =
  reads :: nat
  ticks :: nat
  out :: "event list"

record acq = world +
  frame :: "real list"

record live = acq +
  t_array :: "real list"

record interp = live +
  last_update :: real
  count :: nat

definition w0 :: world where
  "w0 = \<lparr>reads = 0, ticks = 0, out = []\<rparr>"

definition world_of :: "'a world_scheme \<Rightarrow> world" where
  "world_of st = \<lparr>reads = reads st, ticks = ticks st, out = out st\<rparr>"

definition emit :: "event list \<Rightarrow> 'a world_scheme \<Rightarrow> 'a world_scheme" where
  "emit es st = st\<lparr>out := out st @ es\<rparr>"

text \<open>
  A call either returns or raises; a loop body continues, breaks or raises. \<open>Running\<close>
  is a mode whose loop has not ended within the given number of iterations.
\<close>

datatype ('r, 's) result =
    is_Running: Running (state_of: 's)
  | is_Returned: Returned 'r (state_of: 's)
  | is_Raised: Raised exn (state_of: 's)

datatype 's ctl =
    Continue (ctl_state: 's)
  | Break (ctl_state: 's)
  | Throw exn (ctl_state: 's)

text \<open>
  \<open>while True:\<close> run for at most \<open>fuel\<close> iterations. \<open>Continue s\<close> as a result means
  that the loop is still running after \<open>fuel\<close> iterations, in state \<open>s\<close>.
\<close>

fun while_true :: "('s \<Rightarrow> 's ctl) \<Rightarrow> nat \<Rightarrow> 's \<Rightarrow> 's ctl" where
  "while_true body 0 s = Continue s"
| "while_true body (Suc fuel) s =
     (case body s of
        Continue s' \<Rightarrow> while_true body fuel s'
      | Break s' \<Rightarrow> Break s'
      | Throw e s' \<Rightarrow> Throw e s')"

text \<open>
  \<open>mlx.getFrame(frame)\<close>: the driver overwrites the buffer in place with the
  temperatures of the pixels, or raises. A call that raises leaves the buffer as it was
  in the model; no mode looks at the buffer after a failed call.
\<close>

definition getFrame :: "env \<Rightarrow> 'a acq_scheme \<Rightarrow> (unit, 'a acq_scheme) result" where
  "getFrame env st =
     (case sensor env (reads st) of
        Frame vals \<Rightarrow>
          Returned () (st\<lparr>reads := Suc (reads st), frame := map vals [0..<length (frame st)]\<rparr>)
      | Raises e \<Rightarrow> Raised e (st\<lparr>reads := Suc (reads st)\<rparr>))"

definition time_monotonic :: "env \<Rightarrow> 'a world_scheme \<Rightarrow> real \<times> 'a world_scheme" where
  "time_monotonic env st = (monotonic env (ticks st), st\<lparr>ticks := Suc (ticks st)\<rparr>)"

text \<open>
  \<open>np.min\<close> and \<open>np.max\<close> of a two-dimensional array. numpy raises for an array without
  elements; the arrays of the script have 24 x 32 elements or more.
\<close>

definition np_min :: "real list list \<Rightarrow> real" where
  "np_min m = Min (set (concat m))"

definition np_max :: "real list list \<Rightarrow> real" where
  "np_max m = Max (set (concat m))"

text \<open>\<open>len(t_array) / np.sum(t_array)\<close>\<close>

definition fps :: "real list \<Rightarrow> real option" where
  "fps ts = (if sum_list ts = 0 then None else Some (real (length ts) / sum_list ts))"

subsection \<open>Mode 1: print\_mean\_temp\<close>

text \<open>
  \<^verbatim>\<open>
  while True:
      try:
          mlx.getFrame(frame)
          break
      except ValueError:
          continue
  \<close>
\<close>

definition print_mean_temp_body :: "env \<Rightarrow> acq \<Rightarrow> acq ctl" where
  "print_mean_temp_body env st =
     (case getFrame env st of
        Returned _ st' \<Rightarrow> Break st'
      | Raised e st' \<Rightarrow> if e = ValueError then Continue st' else Throw e st'
      | Running st' \<Rightarrow> Continue st')"

definition print_mean_temp_init :: "world \<Rightarrow> acq" where
  "print_mean_temp_init w =
     \<lparr>reads = reads w, ticks = ticks w, out = out w, frame = replicate (24 * 32) 0\<rparr>"

definition print_mean_temp_loop :: "env \<Rightarrow> nat \<Rightarrow> world \<Rightarrow> acq ctl" where
  "print_mean_temp_loop env fuel w =
     while_true (print_mean_temp_body env) fuel (print_mean_temp_init w)"

definition print_mean_temp :: "env \<Rightarrow> nat \<Rightarrow> world \<Rightarrow> (real \<times> real, world) result" where
  "print_mean_temp env fuel w =
     (case print_mean_temp_loop env fuel w of
        Continue st \<Rightarrow> Running (world_of st)
      | Throw e st \<Rightarrow> Raised e (world_of st)
      | Break st \<Rightarrow>
          (let temp_c = np_mean (frame st);
               temp_f = c_to_f temp_c
           in Returned (temp_c, temp_f) (emit [Print_mean temp_c temp_f] (world_of st))))"

subsection \<open>Mode 2: simple\_pic\<close>

text \<open>One frame, read without a \<open>try\<close>, shown and saved.\<close>

definition simple_pic :: "env \<Rightarrow> string \<Rightarrow> world \<Rightarrow> (unit, world) result" where
  "simple_pic env output_folder w =
     (let st = emit [Refresh_rate 2] w;
          st = \<lparr>reads = reads st, ticks = ticks st, out = out st, frame = replicate (24 * 32) 0\<rparr>
      in case getFrame env st of
           Raised e st \<Rightarrow> Raised e (world_of st)
         | Running st \<Rightarrow> Running (world_of st)
         | Returned _ st \<Rightarrow>
             (case np_reshape (frame st) mlx_shape of
                Inl e \<Rightarrow> Raised e (world_of st)
              | Inr data_array \<Rightarrow>
                  Returned ()
                    (emit [Set_data (np_fliplr data_array),
                           Set_clim (np_min data_array) (np_max data_array),
                           Colorbar_changed,
                           Pause,
                           Savefig (output_folder @ ''simple_pic.png'')]
                       (world_of st))))"

subsection \<open>Mode 3: simple\_camera\_read\<close>

text \<open>
  The whole iteration is inside the \<open>try\<close>: a \<open>ValueError\<close> of the acquisition (or of
  the reshape) goes to \<open>continue\<close>, any other exception leaves the function. There is
  no \<open>break\<close> and no \<open>return\<close> in the loop.
\<close>

definition simple_camera_read_body :: "env \<Rightarrow> live \<Rightarrow> live ctl" where
  "simple_camera_read_body env st =
     (case time_monotonic env st of (t1, st) \<Rightarrow>
        (case getFrame env st of
           Raised e st \<Rightarrow> if e = ValueError then Continue st else Throw e st
         | Running st \<Rightarrow> Continue st
         | Returned _ st \<Rightarrow>
             (case np_reshape (frame st) mlx_shape of
                Inl e \<Rightarrow> if e = ValueError then Continue st else Throw e st
              | Inr data_array \<Rightarrow>
                  (let st = emit [Set_data (np_fliplr data_array),
                                  Set_clim (np_min data_array) (np_max data_array),
                                  Colorbar_changed,
                                  Pause] st
                   in case time_monotonic env st of (t2, st) \<Rightarrow>
                        (let st = st\<lparr>t_array := t_array st @ [t2 - t1]\<rparr>
                         in Continue (emit [Print_rate (fps (t_array st))] st))))))"

text \<open>The state in which the loop is entered, and the loop from there.\<close>

definition simple_camera_read_init :: "world \<Rightarrow> live" where
  "simple_camera_read_init w =
     (let st = emit [Refresh_rate 8] w
      in \<lparr>reads = reads st, ticks = ticks st, out = out st,
          frame = replicate (24 * 32) 0, t_array = []\<rparr>)"

definition simple_camera_read_loop :: "env \<Rightarrow> nat \<Rightarrow> world \<Rightarrow> live ctl" where
  "simple_camera_read_loop env fuel w =
     while_true (simple_camera_read_body env) fuel (simple_camera_read_init w)"

definition simple_camera_read :: "env \<Rightarrow> nat \<Rightarrow> world \<Rightarrow> (unit, world) result" where
  "simple_camera_read env fuel w =
     (case simple_camera_read_loop env fuel w of
           Continue st \<Rightarrow> Running (world_of st)
         | Break st \<Rightarrow> Returned () (world_of st)
         | Throw e st \<Rightarrow> Raised e (world_of st))"

subsection \<open>Mode 4: interpolated\_pic\<close>

text \<open>\<open>mlx_interp_val = 10\<close> in both interpolated modes.\<close>

definition mlx_interp_val :: nat where
  "mlx_interp_val = 10"

definition interpolated_pic :: "env \<Rightarrow> string \<Rightarrow> world \<Rightarrow> (unit, world) result" where
  "interpolated_pic env output_folder w =
     (let st = emit [Refresh_rate 4, Log_debug ''Setting up plot'' []] w;
          st = \<lparr>reads = reads st, ticks = ticks st, out = out st, frame = replicate (24 * 32) 0\<rparr>;
          st = emit [Log_debug ''Updating plot'' [], Restore_region] st
      in case getFrame env st of
           Raised e st \<Rightarrow> Raised e (world_of st)
         | Running st \<Rightarrow> Running (world_of st)
         | Returned _ st \<Rightarrow>
             (case np_reshape (frame st) mlx_shape of
                Inl e \<Rightarrow> Raised e (world_of st)
              | Inr grid \<Rightarrow>
                  (let data_array = zoom env (np_fliplr grid) mlx_interp_val
                   in Returned ()
                        (emit [Set_data data_array,
                               Set_clim (np_min data_array) (np_max data_array),
                               Colorbar_changed,
                               Draw_artist,
                               Blit,
                               Flush_events,
                               Savefig (output_folder @ ''interp_pic.png'')]
                           (world_of st)))))"

subsection \<open>Mode 5: interpolated\_camera\_read\<close>

text \<open>
  \<open>plot_update(full_update)\<close>: the frame is read without a \<open>try\<close>; the image data and
  the colour range are set on a full update only.
\<close>

definition plot_update :: "env \<Rightarrow> bool \<Rightarrow> 'a acq_scheme \<Rightarrow> (unit, 'a acq_scheme) result" where
  "plot_update env full_update st =
     (let st = emit [Restore_region] st
      in case getFrame env st of
           Raised e st \<Rightarrow> Raised e st
         | Running st \<Rightarrow> Running st
         | Returned _ st \<Rightarrow>
             (case np_reshape (frame st) mlx_shape of
                Inl e \<Rightarrow> Raised e st
              | Inr grid \<Rightarrow>
                  (let data_array = zoom env (np_fliplr grid) mlx_interp_val;
                       st = (if full_update
                             then emit [Set_data data_array,
                                        Set_clim (np_min data_array) (np_max data_array),
                                        Colorbar_changed] st
                             else st)
                   in Returned () (emit [Draw_artist, Blit, Flush_events] st))))"

text \<open>
  The body of the loop. The \<open>try\<close> around \<open>plot_update\<close> is commented out in the
  source, so every exception of the acquisition leaves the function. The loop ends
  only through the \<open>break\<close> under \<open>profiling & (count >= 20)\<close>.
\<close>

definition colorbar_update_interval :: real where
  "colorbar_update_interval = 5"

definition interpolated_camera_read_body :: "bool \<Rightarrow> env \<Rightarrow> string \<Rightarrow> interp \<Rightarrow> interp ctl" where
  "interpolated_camera_read_body profiling env output_folder st =
     (case time_monotonic env st of (t1, st) \<Rightarrow>
        (let full_update = (t1 - last_update st > colorbar_update_interval);
             st = (if full_update then st\<lparr>last_update := t1\<rparr> else st)
         in case plot_update env full_update st of
              Raised e st \<Rightarrow> Throw e st
            | Running st \<Rightarrow> Continue st
            | Returned _ st \<Rightarrow>
                (case time_monotonic env st of (t2, st) \<Rightarrow>
                   (let st = st\<lparr>t_array := t_array st @ [t2 - t1]\<rparr>;
                        st = (if length (t_array st) > 10
                              then st\<lparr>t_array := drop 1 (t_array st)\<rparr> else st)
                    in if full_update
                       then (let st = emit [Print_rate (fps (t_array st))] st;
                                 st = st\<lparr>count := count st + 1\<rparr>
                             in if profiling \<and> count st \<ge> 20
                                then Break
                                       (emit [Log_info ''Printing and dumping profiling stats'',
                                              Profile_disable,
                                              Dump_stats (output_folder @ ''profiling_stats.prof''),
                                              Print_stats (output_folder @ ''profiling_stats.prof'') 50]
                                          st)
                                else Continue st)
                       else Continue st))))"

text \<open>The state in which the loop is entered, and the loop from there.\<close>

definition interpolated_camera_read_init :: "bool \<Rightarrow> world \<Rightarrow> interp" where
  "interpolated_camera_read_init profiling w =
     (let st = emit ([Refresh_rate 8] @ (if profiling then [Profile_enable] else [])) w
      in \<lparr>reads = reads st, ticks = ticks st, out = out st,
          frame = replicate (24 * 32) 0, t_array = [],
          last_update = - 100, count = 0\<rparr>)"

definition interpolated_camera_read_loop ::
  "bool \<Rightarrow> env \<Rightarrow> string \<Rightarrow> nat \<Rightarrow> world \<Rightarrow> interp ctl" where
  "interpolated_camera_read_loop profiling env output_folder fuel w =
     while_true (interpolated_camera_read_body profiling env output_folder) fuel
       (interpolated_camera_read_init profiling w)"

definition interpolated_camera_read ::
  "bool \<Rightarrow> env \<Rightarrow> string \<Rightarrow> nat \<Rightarrow> world \<Rightarrow> (unit, world) result" where
  "interpolated_camera_read profiling env output_folder fuel w =
     (case interpolated_camera_read_loop profiling env output_folder fuel w of
           Continue st \<Rightarrow> Running (world_of st)
         | Break st \<Rightarrow> Returned () (world_of st)
         | Throw e st \<Rightarrow> Raised e (world_of st))"

subsection \<open>The script\<close>

text \<open>
  \<open>mode\<close> and \<open>profiling\<close> are constants of the source (\<open>mode = 1\<close>,
  \<open>profiling = False\<close>) that the user edits; they are parameters here.
\<close>

definition forget :: "('r, 's) result \<Rightarrow> (unit, 's) result" where
  "forget r = (case r of Running s \<Rightarrow> Running s | Returned _ s \<Rightarrow> Returned () s
                       | Raised e s \<Rightarrow> Raised e s)"

definition main ::
  "bool \<Rightarrow> int \<Rightarrow> env \<Rightarrow> string \<Rightarrow> nat \<Rightarrow> world \<Rightarrow> (unit, world) result" where
  "main profiling mode env output_folder fuel w =
     (if mode = 1 then forget (print_mean_temp env fuel w)
      else if mode = 2 then simple_pic env output_folder w
      else if mode = 3 then simple_camera_read env fuel w
      else if mode = 4 then interpolated_pic env output_folder w
      else if mode = 5 then interpolated_camera_read profiling env output_folder fuel w
      else Returned () (emit [Print_text ''Incorrect or missing mode.''] w))"

text \<open>
  The module level: the two debug messages, then the one \<open>config.get\<close>, whose exception
  (a missing section or option) ends the process before any mode runs.
\<close>

definition script ::
  "bool \<Rightarrow> int \<Rightarrow> config \<Rightarrow> env \<Rightarrow> nat \<Rightarrow> (unit, world) result" where
  "script profiling mode cfg env fuel =
     (let w = emit [Log_debug ''Config file sections found: '' (cfg_sections cfg),
                    Log_debug ''Reading config file and initializing variables...'' []] w0
      in case cfg_get cfg ''FILEPATHS'' ''output_folder'' of
           Inl e \<Rightarrow> Raised e w
         | Inr output_folder \<Rightarrow> main profiling mode env output_folder fuel w)"

subsection \<open>Observations\<close>

text \<open>
  The files an event writes, and the files written in a state of the world.
\<close>

definition written :: "event \<Rightarrow> string list" where
  "written e = (case e of Savefig p \<Rightarrow> [p] | Dump_stats p \<Rightarrow> [p] | _ \<Rightarrow> [])"

definition files :: "'a world_scheme \<Rightarrow> string set" where
  "files st = set (concat (map written (out st)))"

text \<open>The three files the script can write into the output folder.\<close>

definition output_files :: "string \<Rightarrow> string set" where
  "output_files output_folder =
     {output_folder @ ''simple_pic.png'', output_folder @ ''interp_pic.png'',
      output_folder @ ''profiling_stats.prof''}"

text \<open>
  The same events with the directory \<open>d\<close> put in front of every file path.
\<close>

fun relocate :: "string \<Rightarrow> event \<Rightarrow> event" where
  "relocate d (Savefig p) = Savefig (d @ p)"
| "relocate d (Dump_stats p) = Dump_stats (d @ p)"
| "relocate d (Print_stats p n) = Print_stats (d @ p) n"
| "relocate d e = e"

definition relocate_out :: "string \<Rightarrow> 'a world_scheme \<Rightarrow> 'a world_scheme" where
  "relocate_out d st = st\<lparr>out := map (relocate d) (out st)\<rparr>"

text \<open>
  Two configurations with the same sections and the same \<open>output_folder\<close>; the second
  has one more option.
\<close>

definition example_cfg :: config where
  "example_cfg =
     \<lparr>cfg_sections = [''FILEPATHS''],
      cfg_get = (\<lambda>s opt. if s = ''FILEPATHS''
                           then (if opt = ''output_folder'' then Inr ''out/'' else Inl NoOptionError)
                           else Inl NoSectionError)\<rparr>"

definition other_cfg :: config where
  "other_cfg =
     \<lparr>cfg_sections = [''FILEPATHS''],
      cfg_get = (\<lambda>s opt. if s = ''FILEPATHS''
                           then (if opt = ''output_folder'' then Inr ''out/''
                                 else if opt = ''log_folder'' then Inr ''log/''
                                 else Inl NoOptionError)
                           else Inl NoSectionError)\<rparr>"

subsection \<open>Concrete environments\<close>

text \<open>
  Three sensors to run the modes on: one whose first three reads raise \<open>ValueError\<close>
  and whose later reads give 20 degrees at every pixel, one whose reads all raise
  \<open>ValueError\<close>, and one that never fails. The clock advances by one second per call
  (\<open>slow_clock\<close>: by three seconds), and the interpolation is the identity.
\<close>

definition flaky_env :: env where
  "flaky_env = \<lparr>sensor = (\<lambda>k. if k < 3 then Raises ValueError else Frame (\<lambda>_. 20)),
                monotonic = (\<lambda>k. real k), zoom = (\<lambda>g n. g)\<rparr>"

definition dead_env :: env where
  "dead_env = \<lparr>sensor = (\<lambda>k. Raises ValueError),
               monotonic = (\<lambda>k. real k), zoom = (\<lambda>g n. g)\<rparr>"

definition good_env :: env where
  "good_env = \<lparr>sensor = (\<lambda>k. Frame (\<lambda>_. 20)),
               monotonic = (\<lambda>k. real k), zoom = (\<lambda>g n. g)\<rparr>"

section \<open>Properties\<close>

subsection \<open>Loops\<close>

lemma world_of_simps [simp]:
  "reads (world_of st) = reads st" "ticks (world_of st) = ticks st" "out (world_of st) = out st"
  by (simp_all add: world_of_def)

lemma while_true_add:
  "while_true body (m + n) s =
     (case while_true body m s of Continue s' \<Rightarrow> while_true body n s'
        | Break s' \<Rightarrow> Break s' | Throw e s' \<Rightarrow> Throw e s')"
  by (induction m arbitrary: s) (auto split: ctl.splits)

lemma while_true_never_breaks:
  assumes "\<And>s s'. body s \<noteq> Break s'"
  shows "while_true body fuel s \<noteq> Break s'"
  using assms by (induction fuel arbitrary: s) (auto split: ctl.splits)

text \<open>
  A property of the state that every iteration keeps, however it ends, holds of the
  state in which the loop is after any number of iterations.
\<close>

lemma while_true_invariant:
  assumes "P s" and "\<And>s. P s \<Longrightarrow> P (ctl_state (body s))"
  shows "P (ctl_state (while_true body fuel s))"
  using assms(1)
proof (induction fuel arbitrary: s)
  case 0
  then show ?case by simp
next
  case (Suc fuel)
  from Suc.prems have b: "P (ctl_state (body s))" by (rule assms(2))
  show ?case
  proof (cases "body s")
    case (Continue s')
    with b Suc.IH[of s'] show ?thesis by simp
  next
    case (Break s')
    with b show ?thesis by simp
  next
    case (Throw e s')
    with b show ?thesis by simp
  qed
qed

subsection \<open>The retry loop of print\_mean\_temp\<close>

lemma pmt_body_ValueError:
  "sensor env (reads st) = Raises ValueError \<Longrightarrow>
   print_mean_temp_body env st = Continue (st\<lparr>reads := Suc (reads st)\<rparr>)"
  by (simp add: print_mean_temp_body_def getFrame_def)

lemma pmt_body_Frame:
  "sensor env (reads st) = Frame vals \<Longrightarrow>
   print_mean_temp_body env st =
     Break (st\<lparr>reads := Suc (reads st), frame := map vals [0..<length (frame st)]\<rparr>)"
  by (simp add: print_mean_temp_body_def getFrame_def)

lemma pmt_body_other:
  "sensor env (reads st) = Raises e \<Longrightarrow> e \<noteq> ValueError \<Longrightarrow>
   print_mean_temp_body env st = Throw e (st\<lparr>reads := Suc (reads st)\<rparr>)"
  by (simp add: print_mean_temp_body_def getFrame_def)

lemma pmt_loop_retry:
  "(\<And>k. k < j \<Longrightarrow> sensor env (reads st + k) = Raises ValueError) \<Longrightarrow>
   while_true (print_mean_temp_body env) (j + n) st =
   while_true (print_mean_temp_body env) n (st\<lparr>reads := reads st + j\<rparr>)"
proof (induction j arbitrary: st)
  case 0
  then show ?case by simp
next
  case (Suc j)
  have h0: "sensor env (reads st) = Raises ValueError" using Suc.prems[of 0] by simp
  have "while_true (print_mean_temp_body env) (Suc j + n) st =
        while_true (print_mean_temp_body env) (j + n) (st\<lparr>reads := Suc (reads st)\<rparr>)"
    by (simp add: pmt_body_ValueError[OF h0])
  also have "\<dots> = while_true (print_mean_temp_body env) n
                     ((st\<lparr>reads := Suc (reads st)\<rparr>)\<lparr>reads := reads (st\<lparr>reads := Suc (reads st)\<rparr>) + j\<rparr>)"
    using Suc.prems[of "Suc _"] by (intro Suc.IH) simp
  finally show ?case by simp
qed

lemma pmt_loop_break_iff:
  "(\<exists>st'. while_true (print_mean_temp_body env) fuel st = Break st') \<longleftrightarrow>
   (\<exists>j<fuel. (\<forall>k<j. sensor env (reads st + k) = Raises ValueError) \<and>
        (\<exists>vals. sensor env (reads st + j) = Frame vals))"
proof (induction fuel arbitrary: st)
  case 0
  then show ?case by simp
next
  case (Suc fuel)
  show ?case
  proof (cases "sensor env (reads st)")
    case (Frame vals)
    then show ?thesis by (auto simp: pmt_body_Frame intro!: exI[of _ 0])
  next
    case (Raises e)
    show ?thesis
    proof (cases "e = ValueError")
      case True
      with Raises have h: "sensor env (reads st) = Raises ValueError" by simp
      have "(\<exists>st'. while_true (print_mean_temp_body env) (Suc fuel) st = Break st') \<longleftrightarrow>
            (\<exists>j<fuel. (\<forall>k<j. sensor env (Suc (reads st) + k) = Raises ValueError) \<and>
               (\<exists>vals. sensor env (Suc (reads st) + j) = Frame vals))"
        using Suc.IH[of "st\<lparr>reads := Suc (reads st)\<rparr>"] by (simp add: pmt_body_ValueError[OF h])
      also have "\<dots> \<longleftrightarrow> (\<exists>j<Suc fuel. (\<forall>k<j. sensor env (reads st + k) = Raises ValueError) \<and>
               (\<exists>vals. sensor env (reads st + j) = Frame vals))" (is "?L \<longleftrightarrow> ?R")
      proof
        assume ?L
        then obtain j where j: "j < fuel" "\<forall>k<j. sensor env (Suc (reads st) + k) = Raises ValueError"
          "\<exists>vals. sensor env (Suc (reads st) + j) = Frame vals" by blast
        have "\<forall>k<Suc j. sensor env (reads st + k) = Raises ValueError"
        proof (intro allI impI)
          fix k assume "k < Suc j"
          then show "sensor env (reads st + k) = Raises ValueError"
            using h j(2) by (cases k) auto
        qed
        with j show ?R by (intro exI[of _ "Suc j"]) auto
      next
        assume ?R
        then obtain j where j: "j < Suc fuel" "\<forall>k<j. sensor env (reads st + k) = Raises ValueError"
          "\<exists>vals. sensor env (reads st + j) = Frame vals" by blast
        from j(3) h have "j \<noteq> 0" by (cases j) auto
        then obtain i where i: "j = Suc i" by (cases j) auto
        have "\<forall>k<i. sensor env (Suc (reads st) + k) = Raises ValueError"
          using j(2) i by auto
        with j i show ?L by (intro exI[of _ i]) auto
      qed
      finally show ?thesis .
    next
      case False
      have L: "\<not> (\<exists>st'. while_true (print_mean_temp_body env) (Suc fuel) st = Break st')"
        using Raises False by (simp add: pmt_body_other)
      have R: "\<not> (\<exists>j<Suc fuel. (\<forall>k<j. sensor env (reads st + k) = Raises ValueError) \<and>
               (\<exists>vals. sensor env (reads st + j) = Frame vals))"
      proof
        assume "\<exists>j<Suc fuel. (\<forall>k<j. sensor env (reads st + k) = Raises ValueError) \<and>
               (\<exists>vals. sensor env (reads st + j) = Frame vals)"
        then obtain j where j: "\<forall>k<j. sensor env (reads st + k) = Raises ValueError"
          "\<exists>vals. sensor env (reads st + j) = Frame vals" by blast
        show False
        proof (cases j)
          case 0
          with j(2) Raises show False by simp
        next
          case (Suc i)
          with j(1) have "sensor env (reads st + 0) = Raises ValueError" by blast
          with Raises False show False by simp
        qed
      qed
      from L R show ?thesis by blast
    qed
  qed
qed

text \<open>
  C2: the retry loop of \<open>print_mean_temp\<close> ends, and the function returns, exactly
  when some read of the loop succeeds, all reads before it having raised \<open>ValueError\<close>;
  on a sensor whose every read raises \<open>ValueError\<close> the loop is still running after
  any number of iterations, having made that many reads.
\<close>

theorem print_mean_temp_terminates_iff:
  "((\<exists>fuel r w'. print_mean_temp env fuel w = Returned r w') \<longleftrightarrow>
      (\<exists>j. (\<forall>k<j. sensor env (reads w + k) = Raises ValueError) \<and>
           (\<exists>vals. sensor env (reads w + j) = Frame vals)))
   \<and> ((\<forall>k. sensor env (reads w + k) = Raises ValueError) \<longrightarrow>
      (\<forall>fuel. print_mean_temp env fuel w =
                Running \<lparr>reads = reads w + fuel, ticks = ticks w, out = out w\<rparr>))"
proof (intro conjI impI allI)
  let ?st = "print_mean_temp_init w"
  have r: "reads ?st = reads w" by (simp add: print_mean_temp_init_def)
  have "(\<exists>fuel r w'. print_mean_temp env fuel w = Returned r w') \<longleftrightarrow>
        (\<exists>fuel st'. while_true (print_mean_temp_body env) fuel ?st = Break st')"
  proof -
    have "(\<exists>r w'. print_mean_temp env fuel w = Returned r w') \<longleftrightarrow>
          (\<exists>st'. while_true (print_mean_temp_body env) fuel ?st = Break st')" for fuel
      by (cases "while_true (print_mean_temp_body env) fuel ?st")
         (simp_all add: print_mean_temp_def print_mean_temp_loop_def Let_def)
    then show ?thesis by blast
  qed
  also have "\<dots> \<longleftrightarrow> (\<exists>fuel. \<exists>j<fuel. (\<forall>k<j. sensor env (reads w + k) = Raises ValueError) \<and>
        (\<exists>vals. sensor env (reads w + j) = Frame vals))"
    using pmt_loop_break_iff[of env _ ?st] unfolding r by blast
  also have "\<dots> \<longleftrightarrow> (\<exists>j. (\<forall>k<j. sensor env (reads w + k) = Raises ValueError) \<and>
           (\<exists>vals. sensor env (reads w + j) = Frame vals))"
    by (auto intro: exI[of _ "Suc _"])
  finally show "(\<exists>fuel r w'. print_mean_temp env fuel w = Returned r w') \<longleftrightarrow>
      (\<exists>j. (\<forall>k<j. sensor env (reads w + k) = Raises ValueError) \<and>
           (\<exists>vals. sensor env (reads w + j) = Frame vals))" .
next
  fix fuel
  let ?st = "print_mean_temp_init w"
  assume a: "\<forall>k. sensor env (reads w + k) = Raises ValueError"
  have "while_true (print_mean_temp_body env) (fuel + 0) ?st =
        while_true (print_mean_temp_body env) 0 (?st\<lparr>reads := reads ?st + fuel\<rparr>)"
    by (rule pmt_loop_retry) (simp add: a print_mean_temp_init_def)
  then show "print_mean_temp env fuel w =
                Running \<lparr>reads = reads w + fuel, ticks = ticks w, out = out w\<rparr>"
    by (simp add: print_mean_temp_def print_mean_temp_loop_def print_mean_temp_init_def
          world_of_def)
qed

theorem print_mean_temp_terminates_iff_witness:
  "(\<exists>fuel r w'. print_mean_temp flaky_env fuel w0 = Returned r w')
   \<and> print_mean_temp dead_env 1000 w0 = Running \<lparr>reads = 1000, ticks = 0, out = []\<rparr>"
proof
  have "\<exists>j. (\<forall>k<j. sensor flaky_env (reads w0 + k) = Raises ValueError) \<and>
           (\<exists>vals. sensor flaky_env (reads w0 + j) = Frame vals)"
    by (intro exI[of _ 3]) (simp add: flaky_env_def w0_def)
  then show "\<exists>fuel r w'. print_mean_temp flaky_env fuel w0 = Returned r w'"
    using print_mean_temp_terminates_iff[of flaky_env w0] by blast
next
  have "\<forall>k. sensor dead_env (reads w0 + k) = Raises ValueError"
    by (simp add: dead_env_def)
  then have "print_mean_temp dead_env 1000 w0 =
                Running \<lparr>reads = reads w0 + 1000, ticks = ticks w0, out = out w0\<rparr>"
    using print_mean_temp_terminates_iff[of dead_env w0] by blast
  then show "print_mean_temp dead_env 1000 w0 = Running \<lparr>reads = 1000, ticks = 0, out = []\<rparr>"
    by (simp add: w0_def)
qed

text \<open>
  C4: when the sensor gives a frame after \<open>j\<close> failed reads and the loop may run for
  more than \<open>j\<close> iterations, \<open>print_mean_temp\<close> returns the pair of \<open>temp_c\<close>, the sum
  of the 768 temperatures of the buffer divided by 768, and \<open>c_to_f temp_c\<close>, having
  printed the two.
\<close>

theorem print_mean_temp_returns_mean:
  assumes "\<forall>k<j. sensor env (reads w + k) = Raises ValueError"
      and "sensor env (reads w + j) = Frame vals"
      and "j < fuel"
  shows "print_mean_temp env fuel w =
           Returned (sum_list (map vals [0..<768]) / 768,
                     c_to_f (sum_list (map vals [0..<768]) / 768))
             \<lparr>reads = reads w + j + 1, ticks = ticks w,
              out = out w @ [Print_mean (sum_list (map vals [0..<768]) / 768)
                                        (c_to_f (sum_list (map vals [0..<768]) / 768))]\<rparr>"
proof -
  let ?st = "print_mean_temp_init w"
  obtain n where n: "fuel = j + Suc n" using assms(3) less_iff_Suc_add by auto
  have "while_true (print_mean_temp_body env) (j + Suc n) ?st =
        while_true (print_mean_temp_body env) (Suc n) (?st\<lparr>reads := reads ?st + j\<rparr>)"
    by (rule pmt_loop_retry) (simp add: assms(1) print_mean_temp_init_def)
  also have "\<dots> = Break (?st\<lparr>reads := reads w + j + 1, frame := map vals [0..<768]\<rparr>)"
    using assms(2) by (simp add: pmt_body_Frame print_mean_temp_init_def)
  finally show ?thesis
    by (simp add: print_mean_temp_def print_mean_temp_loop_def print_mean_temp_init_def n
          np_mean_def Let_def world_of_def emit_def)
qed

theorem print_mean_temp_returns_mean_witness:
  "print_mean_temp flaky_env 4 w0 =
     Returned (20, 68) \<lparr>reads = 4, ticks = 0, out = [Print_mean 20 68]\<rparr>"
proof -
  have h1: "\<forall>k<3. sensor flaky_env (reads w0 + k) = Raises ValueError"
    by (simp add: flaky_env_def w0_def)
  have h2: "sensor flaky_env (reads w0 + 3) = Frame (\<lambda>_. 20)"
    by (simp add: flaky_env_def w0_def)
  have s: "sum_list (map (\<lambda>_. 20::real) [0..<768]) / 768 = 20"
    by (simp add: map_replicate_const sum_list_replicate)
  show ?thesis
    using print_mean_temp_returns_mean[OF h1 h2, of 4]
    unfolding s by (simp add: w0_def c_to_f_def)
qed

subsection \<open>The bodies of the two live loops\<close>

lemma np_reshape_768:
  "length a = 768 \<Longrightarrow>
   np_reshape a mlx_shape = Inr (map (\<lambda>i. take 32 (drop (i * 32) a)) [0..<24])"
  by (simp add: np_reshape_def mlx_shape_def)

lemma np_reshape_Inl: "np_reshape a shape = Inl e \<Longrightarrow> e = ValueError"
  by (auto simp: np_reshape_def split: prod.splits if_splits)

lemma getFrame_Raises:
  "sensor env (reads st) = Raises e \<Longrightarrow> getFrame env st = Raised e (st\<lparr>reads := Suc (reads st)\<rparr>)"
  by (simp add: getFrame_def)

lemma getFrame_Frame:
  "sensor env (reads st) = Frame vals \<Longrightarrow>
   getFrame env st =
     Returned () (st\<lparr>reads := Suc (reads st), frame := map vals [0..<length (frame st)]\<rparr>)"
  by (simp add: getFrame_def)


lemma plot_update_Raises:
  "sensor env (reads st) = Raises e \<Longrightarrow>
   plot_update env full_update st =
     Raised e (st\<lparr>reads := Suc (reads st), out := out st @ [Restore_region]\<rparr>)"
  by (simp add: plot_update_def getFrame_def emit_def)

lemma plot_update_Frame:
  assumes "sensor env (reads st) = Frame vals" and "length (frame st) = 768"
  shows "plot_update env full_update st =
     Returned ()
       (st\<lparr>reads := Suc (reads st), frame := map vals [0..<768],
           out := out st @ [Restore_region] @
             (if full_update
              then (let d = zoom env (np_fliplr (projr (np_reshape (map vals [0..<768]) mlx_shape)))
                              mlx_interp_val
                    in [Set_data d, Set_clim (np_min d) (np_max d), Colorbar_changed])
              else []) @
             [Draw_artist, Blit, Flush_events]\<rparr>)"
  using assms
  by (simp add: plot_update_def getFrame_def emit_def np_reshape_768 Let_def)

lemma plot_update_not_Running: "\<not> is_Running (plot_update env full_update st)"
  by (simp add: plot_update_def getFrame_def emit_def Let_def split: reading.splits sum.splits)

lemma plot_update_fields:
  fixes st :: interp
  shows "t_array (state_of (plot_update env full_update st)) = t_array st"
    and "last_update (state_of (plot_update env full_update st)) = last_update st"
    and "count (state_of (plot_update env full_update st)) = count st"
    and "ticks (state_of (plot_update env full_update st)) = ticks st"
  by (simp_all add: plot_update_def getFrame_def emit_def Let_def split: reading.splits sum.splits)

lemma plot_update_length_frame:
  "length (frame (state_of (plot_update env full_update st))) = length (frame st)"
  by (simp add: plot_update_def getFrame_def emit_def Let_def split: reading.splits sum.splits)

lemma plot_update_Print_rate:
  "Print_rate r \<in> set (out (state_of (plot_update env full_update st))) \<longleftrightarrow>
   Print_rate r \<in> set (out st)"
  by (simp add: plot_update_def getFrame_def emit_def Let_def split: reading.splits sum.splits)

lemma plot_update_Dump_stats:
  "Dump_stats p \<in> set (out (state_of (plot_update env full_update st))) \<longleftrightarrow>
   Dump_stats p \<in> set (out st)"
  by (simp add: plot_update_def getFrame_def emit_def Let_def split: reading.splits sum.splits)

lemma icr_body_unfold:
  "interpolated_camera_read_body profiling env output_folder st =
     (let t1 = monotonic env (ticks st);
          fu = (t1 - last_update st > colorbar_update_interval);
          st1 = (if fu then st\<lparr>ticks := Suc (ticks st), last_update := t1\<rparr>
                 else st\<lparr>ticks := Suc (ticks st)\<rparr>)
      in case plot_update env fu st1 of
           Raised e s2 \<Rightarrow> Throw e s2
         | Running s2 \<Rightarrow> Continue s2
         | Returned _ s2 \<Rightarrow>
             (let ts = t_array s2 @ [monotonic env (ticks s2) - t1];
                  ts' = (if length ts > 10 then drop 1 ts else ts);
                  s3 = s2\<lparr>ticks := Suc (ticks s2), t_array := ts'\<rparr>
              in if fu
                 then (let s4 = s3\<lparr>out := out s3 @ [Print_rate (fps ts')], count := count s3 + 1\<rparr>
                       in if profiling \<and> count s4 \<ge> 20
                          then Break (s4\<lparr>out := out s4 @
                                 [Log_info ''Printing and dumping profiling stats'',
                                  Profile_disable,
                                  Dump_stats (output_folder @ ''profiling_stats.prof''),
                                  Print_stats (output_folder @ ''profiling_stats.prof'') 50]\<rparr>)
                          else Continue s4)
                 else Continue s3))"
proof (cases "monotonic env (ticks st) - last_update st > colorbar_update_interval")
  case True
  then show ?thesis
    by (cases "plot_update env True
                 (st\<lparr>ticks := Suc (ticks st), last_update := monotonic env (ticks st)\<rparr>)")
       (simp_all add: interpolated_camera_read_body_def time_monotonic_def Let_def emit_def)
next
  case False
  then show ?thesis
    by (cases "plot_update env False (st\<lparr>ticks := Suc (ticks st)\<rparr>)")
       (simp_all add: interpolated_camera_read_body_def time_monotonic_def Let_def emit_def)
qed

lemma icr_body_t_array_le:
  assumes "length (t_array st) \<le> 10"
  shows "length (t_array (ctl_state (interpolated_camera_read_body profiling env output_folder st))) \<le> 10"
proof -
  define t1 where "t1 = monotonic env (ticks st)"
  define fu where "fu = (t1 - last_update st > colorbar_update_interval)"
  define st1 where "st1 = (if fu then st\<lparr>ticks := Suc (ticks st), last_update := t1\<rparr>
                           else st\<lparr>ticks := Suc (ticks st)\<rparr>)"
  have t: "t_array st1 = t_array st" by (simp add: st1_def)
  note b = icr_body_unfold[of profiling env output_folder st, unfolded Let_def,
      folded t1_def, folded fu_def, folded st1_def]
  show ?thesis
  proof (cases "plot_update env fu st1")
    case (Running s2)
    with plot_update_fields(1)[of env fu st1] t assms show ?thesis by (simp add: b)
  next
    case (Returned u s2)
    with plot_update_fields(1)[of env fu st1] t assms show ?thesis
      by (auto simp: b)
  next
    case (Raised e s2)
    with plot_update_fields(1)[of env fu st1] t assms show ?thesis by (simp add: b)
  qed
qed


lemma icr_body_step:
  assumes "interpolated_camera_read_body profiling env output_folder st = Continue st'
           \<or> interpolated_camera_read_body profiling env output_folder st = Break st'"
  shows "t_array st' =
           (let ts = t_array st @ [monotonic env (Suc (ticks st)) - monotonic env (ticks st)]
            in if length ts > 10 then drop 1 ts else ts)"
    and "Print_rate r \<in> set (out st') \<Longrightarrow> Print_rate r \<in> set (out st) \<or> r = fps (t_array st')"
proof -
  define t1 where "t1 = monotonic env (ticks st)"
  define fu where "fu = (t1 - last_update st > colorbar_update_interval)"
  define st1 where "st1 = (if fu then st\<lparr>ticks := Suc (ticks st), last_update := t1\<rparr>
                           else st\<lparr>ticks := Suc (ticks st)\<rparr>)"
  have t: "t_array st1 = t_array st" "ticks st1 = Suc (ticks st)" "out st1 = out st"
    by (simp_all add: st1_def)
  note b = icr_body_unfold[of profiling env output_folder st, unfolded Let_def,
      folded t1_def, folded fu_def, folded st1_def]
  note f = plot_update_fields[of env fu st1] plot_update_Print_rate[of r env fu st1]
  have nr: "\<not> is_Running (plot_update env fu st1)" by (rule plot_update_not_Running)
  show "t_array st' =
           (let ts = t_array st @ [monotonic env (Suc (ticks st)) - monotonic env (ticks st)]
            in if length ts > 10 then drop 1 ts else ts)"
  proof (cases "plot_update env fu st1")
    case (Running s2)
    with nr show ?thesis by simp
  next
    case (Returned u s2)
    with f t assms show ?thesis
      by (auto simp: b t1_def Let_def split: if_splits)
  next
    case (Raised e s2)
    with assms show ?thesis by (simp add: b)
  qed
  show "Print_rate r \<in> set (out st') \<Longrightarrow> Print_rate r \<in> set (out st) \<or> r = fps (t_array st')"
  proof (cases "plot_update env fu st1")
    case (Running s2)
    with nr show ?thesis by simp
  next
    case (Returned u s2)
    assume "Print_rate r \<in> set (out st')"
    with Returned f t assms show ?thesis
      by (auto simp: b t1_def Let_def split: if_splits)
  next
    case (Raised e s2)
    with assms show ?thesis by (simp add: b)
  qed
qed

lemma init_simps:
  "t_array (interpolated_camera_read_init profiling w) = []"
  "count (interpolated_camera_read_init profiling w) = 0"
  "last_update (interpolated_camera_read_init profiling w) = - 100"
  "ticks (interpolated_camera_read_init profiling w) = ticks w"
  "reads (interpolated_camera_read_init profiling w) = reads w"
  "frame (interpolated_camera_read_init profiling w) = replicate 768 0"
  "out (interpolated_camera_read_init profiling w) =
     out w @ [Refresh_rate 8] @ (if profiling then [Profile_enable] else [])"
  by (simp_all add: interpolated_camera_read_init_def emit_def Let_def)


lemma icr_body_full:
  assumes "sensor env (reads st) = Frame vals" and "length (frame st) = 768"
      and "monotonic env (ticks st) - last_update st > colorbar_update_interval"
  shows "\<exists>s'. interpolated_camera_read_body profiling env output_folder st =
            (if profiling \<and> count st + 1 \<ge> 20 then Break s' else Continue s')
          \<and> count s' = count st + 1 \<and> ticks s' = ticks st + 2 \<and> reads s' = reads st + 1
          \<and> length (frame s') = 768 \<and> last_update s' = monotonic env (ticks st)"
proof -
  let ?st1 = "st\<lparr>ticks := Suc (ticks st), last_update := monotonic env (ticks st)\<rparr>"
  have "sensor env (reads ?st1) = Frame vals" "length (frame ?st1) = 768"
    using assms by simp_all
  note p = plot_update_Frame[OF this, of True]
  show ?thesis
    using assms(3) p
    by (cases "profiling \<and> count st + 1 \<ge> 20") (auto simp: icr_body_unfold Let_def)
qed

lemma icr_body_nonfull:
  assumes "sensor env (reads st) = Frame vals" and "length (frame st) = 768"
      and "\<not> monotonic env (ticks st) - last_update st > colorbar_update_interval"
  shows "\<exists>s'. interpolated_camera_read_body profiling env output_folder st = Continue s'
          \<and> count s' = count st \<and> ticks s' = ticks st + 2 \<and> reads s' = reads st + 1
          \<and> length (frame s') = 768 \<and> last_update s' = last_update st"
proof -
  let ?st1 = "st\<lparr>ticks := Suc (ticks st)\<rparr>"
  have "sensor env (reads ?st1) = Frame vals" "length (frame ?st1) = 768"
    using assms by simp_all
  note p = plot_update_Frame[OF this, of False]
  show ?thesis
    using assms(3) p by (simp add: icr_body_unfold Let_def)
qed

lemma icr_body_Raises:
  assumes "sensor env (reads st) = Raises e"
  shows "\<exists>s'. interpolated_camera_read_body profiling env output_folder st = Throw e s'
          \<and> reads s' = Suc (reads st) \<and> out s' = out st @ [Restore_region]"
proof (cases "monotonic env (ticks st) - last_update st > colorbar_update_interval")
  case True
  let ?st1 = "st\<lparr>ticks := Suc (ticks st), last_update := monotonic env (ticks st)\<rparr>"
  have "sensor env (reads ?st1) = Raises e" using assms by simp
  note p = plot_update_Raises[OF this, of True]
  show ?thesis using True p by (simp add: icr_body_unfold Let_def)
next
  case False
  let ?st1 = "st\<lparr>ticks := Suc (ticks st)\<rparr>"
  have "sensor env (reads ?st1) = Raises e" using assms by simp
  note p = plot_update_Raises[OF this, of False]
  show ?thesis using False p by (simp add: icr_body_unfold Let_def)
qed

lemma icr_body_not_Break:
  "interpolated_camera_read_body False env output_folder st \<noteq> Break st'"
  unfolding icr_body_unfold Let_def by (simp split: result.splits)


lemma scr_body_not_Break: "simple_camera_read_body env st \<noteq> Break st'"
  by (simp add: simple_camera_read_body_def time_monotonic_def getFrame_def Let_def
      split: reading.splits sum.splits prod.splits)

lemma scr_body_Raises:
  "sensor env (reads st) = Raises e \<Longrightarrow>
   simple_camera_read_body env st =
     (if e = ValueError then Continue (st\<lparr>reads := Suc (reads st), ticks := Suc (ticks st)\<rparr>)
      else Throw e (st\<lparr>reads := Suc (reads st), ticks := Suc (ticks st)\<rparr>))"
  by (simp add: simple_camera_read_body_def time_monotonic_def getFrame_def)

lemma scr_body_Throw:
  assumes "simple_camera_read_body env st = Throw e st'"
  shows "sensor env (reads st) = Raises e \<and> e \<noteq> ValueError"
  using assms
  by (auto simp: simple_camera_read_body_def time_monotonic_def getFrame_def Let_def
      split: reading.splits sum.splits prod.splits if_splits dest: np_reshape_Inl)

lemma scr_loop_retry:
  "(\<And>k. k < n \<Longrightarrow> sensor env (reads st + k) = Raises ValueError) \<Longrightarrow>
   while_true (simple_camera_read_body env) n st =
     Continue (st\<lparr>reads := reads st + n, ticks := ticks st + n\<rparr>)"
proof (induction n arbitrary: st)
  case 0
  then show ?case by simp
next
  case (Suc n)
  have h0: "sensor env (reads st) = Raises ValueError" using Suc.prems[of 0] by simp
  let ?s = "st\<lparr>reads := Suc (reads st), ticks := Suc (ticks st)\<rparr>"
  have "while_true (simple_camera_read_body env) (Suc n) st =
        while_true (simple_camera_read_body env) n ?s"
    by (simp add: scr_body_Raises[OF h0])
  also have "\<dots> = Continue (?s\<lparr>reads := reads ?s + n, ticks := ticks ?s + n\<rparr>)"
    using Suc.prems[of "Suc _"] by (intro Suc.IH) simp
  finally show ?case by simp
qed

lemma while_true_never_throws:
  assumes "\<And>s e s'. body s \<noteq> Throw e s'"
  shows "while_true body fuel s \<noteq> Throw e s'"
  using assms by (induction fuel arbitrary: s) (auto split: ctl.splits)

lemma simple_pic_Raises:
  "sensor env (reads w) = Raises e \<Longrightarrow>
   simple_pic env output_folder w =
     Raised e \<lparr>reads = Suc (reads w), ticks = ticks w, out = out w @ [Refresh_rate 2]\<rparr>"
  by (simp add: simple_pic_def getFrame_def emit_def Let_def world_of_def)

lemma interpolated_pic_Raises:
  "sensor env (reads w) = Raises e \<Longrightarrow>
   interpolated_pic env output_folder w =
     Raised e \<lparr>reads = Suc (reads w), ticks = ticks w,
               out = out w @ [Refresh_rate 4, Log_debug ''Setting up plot'' [],
                              Log_debug ''Updating plot'' [], Restore_region]\<rparr>"
  by (simp add: interpolated_pic_def getFrame_def emit_def Let_def world_of_def)

lemma simple_pic_Frame:
  "sensor env (reads w) = Frame vals \<Longrightarrow> is_Returned (simple_pic env output_folder w)"
  by (simp add: simple_pic_def getFrame_def emit_def Let_def np_reshape_768)

lemma interpolated_pic_Frame:
  "sensor env (reads w) = Frame vals \<Longrightarrow> is_Returned (interpolated_pic env output_folder w)"
  by (simp add: interpolated_pic_def getFrame_def emit_def Let_def np_reshape_768)

lemma print_mean_temp_Frame:
  "sensor env (reads w) = Frame vals \<Longrightarrow> is_Returned (print_mean_temp env (Suc fuel) w)"
  by (simp add: print_mean_temp_def print_mean_temp_loop_def print_mean_temp_init_def
      pmt_body_Frame Let_def)

lemma simple_camera_read_not_Returned: "\<not> is_Returned (simple_camera_read env fuel w)"
proof -
  have "simple_camera_read_loop env fuel w \<noteq> Break s" for s
    unfolding simple_camera_read_loop_def
    by (rule while_true_never_breaks) (rule scr_body_not_Break)
  then have "\<nexists>s. simple_camera_read_loop env fuel w = Break s" by blast
  then show ?thesis
    by (cases "simple_camera_read_loop env fuel w") (simp_all add: simple_camera_read_def)
qed

lemma interpolated_camera_read_not_Returned:
  "\<not> is_Returned (interpolated_camera_read False env output_folder fuel w)"
proof -
  have "interpolated_camera_read_loop False env output_folder fuel w \<noteq> Break s" for s
    unfolding interpolated_camera_read_loop_def
    by (rule while_true_never_breaks) (rule icr_body_not_Break)
  then have "\<nexists>s. interpolated_camera_read_loop False env output_folder fuel w = Break s"
    by blast
  then show ?thesis
    by (cases "interpolated_camera_read_loop False env output_folder fuel w")
       (simp_all add: interpolated_camera_read_def)
qed

lemma simple_camera_read_Running:
  assumes "\<forall>k e. sensor env k = Raises e \<longrightarrow> e = ValueError"
  shows "is_Running (simple_camera_read env fuel w)"
proof -
  have "simple_camera_read_body env s \<noteq> Throw e s'" for s e s'
    using scr_body_Throw[of env s e s'] assms by blast
  then have "simple_camera_read_loop env fuel w \<noteq> Throw e s" for e s
    unfolding simple_camera_read_loop_def by (rule while_true_never_throws)
  then have "\<nexists>e s. simple_camera_read_loop env fuel w = Throw e s" by blast
  moreover have "simple_camera_read_loop env fuel w \<noteq> Break s" for s
    unfolding simple_camera_read_loop_def
    by (rule while_true_never_breaks) (rule scr_body_not_Break)
  then have "\<nexists>s. simple_camera_read_loop env fuel w = Break s" by blast
  ultimately show ?thesis
    by (cases "simple_camera_read_loop env fuel w") (simp_all add: simple_camera_read_def)
qed

text \<open>
  The loop of \<open>interpolated_camera_read\<close> keeps the length of the buffer and, on a
  sensor that always answers, raises nothing.
\<close>

lemma icr_body_length_frame:
  "length (frame (ctl_state (interpolated_camera_read_body profiling env output_folder st)))
     = length (frame st)"
proof -
  define t1 where "t1 = monotonic env (ticks st)"
  define fu where "fu = (t1 - last_update st > colorbar_update_interval)"
  define st1 where "st1 = (if fu then st\<lparr>ticks := Suc (ticks st), last_update := t1\<rparr>
                           else st\<lparr>ticks := Suc (ticks st)\<rparr>)"
  have t: "length (frame st1) = length (frame st)" by (simp add: st1_def)
  note b = icr_body_unfold[of profiling env output_folder st, unfolded Let_def,
      folded t1_def, folded fu_def, folded st1_def]
  show ?thesis
    using plot_update_length_frame[of env fu st1] t
    by (cases "plot_update env fu st1") (auto simp: b)
qed

lemma icr_loop_ok:
  assumes "\<forall>k. \<exists>vals. sensor env k = Frame vals" and "length (frame st) = 768"
  shows "while_true (interpolated_camera_read_body profiling env output_folder) fuel st \<noteq> Throw e s'"
  using assms(2)
proof (induction fuel arbitrary: st)
  case 0
  then show ?case by simp
next
  case (Suc fuel)
  obtain vals where v: "sensor env (reads st) = Frame vals" using assms(1) by blast
  show ?case
  proof (cases "monotonic env (ticks st) - last_update st > colorbar_update_interval")
    case True
    from icr_body_full[OF v Suc.prems True, of profiling output_folder]
    obtain s1 where s1: "interpolated_camera_read_body profiling env output_folder st =
            (if profiling \<and> count st + 1 \<ge> 20 then Break s1 else Continue s1)"
       "length (frame s1) = 768" by blast
    then show ?thesis using Suc.IH[of s1] by (simp split: if_splits)
  next
    case False
    from icr_body_nonfull[OF v Suc.prems False, of profiling output_folder]
    obtain s1 where s1: "interpolated_camera_read_body profiling env output_folder st = Continue s1"
       "length (frame s1) = 768" by blast
    then show ?thesis using Suc.IH[of s1] by simp
  qed
qed

lemma interpolated_camera_read_Running:
  assumes "\<forall>k. \<exists>vals. sensor env k = Frame vals"
  shows "is_Running (interpolated_camera_read False env output_folder fuel w)"
proof -
  have "interpolated_camera_read_loop False env output_folder fuel w \<noteq> Throw e s" for e s
    unfolding interpolated_camera_read_loop_def
    by (rule icr_loop_ok[OF assms]) (simp add: init_simps)
  then have "\<nexists>e s. interpolated_camera_read_loop False env output_folder fuel w = Throw e s"
    by blast
  moreover have "interpolated_camera_read_loop False env output_folder fuel w \<noteq> Break s" for s
    unfolding interpolated_camera_read_loop_def
    by (rule while_true_never_breaks) (rule icr_body_not_Break)
  then have "\<nexists>s. interpolated_camera_read_loop False env output_folder fuel w = Break s"
    by blast
  ultimately show ?thesis
    by (cases "interpolated_camera_read_loop False env output_folder fuel w")
       (simp_all add: interpolated_camera_read_def)
qed


subsection \<open>Where a failed read is retried\<close>

text \<open>
  C1, as stated, fails: \<open>simple_pic\<close> reads its frame outside any \<open>try\<close>, so a
  \<open>ValueError\<close> of the first read ends the mode after one read, although the fourth
  read of this sensor would have given a frame.
\<close>

theorem retry_everywhere_counterexample:
  "simple_pic flaky_env ''out/'' w0 =
     Raised ValueError \<lparr>reads = 1, ticks = 0, out = [Refresh_rate 2]\<rparr>
   \<and> sensor flaky_env 3 = Frame (\<lambda>_. 20)"
  by (simp add: simple_pic_def getFrame_def emit_def Let_def world_of_def flaky_env_def w0_def)


text \<open>
  C1, amended: the retry exists in \<open>print_mean_temp\<close> and \<open>simple_camera_read\<close>, and
  \<open>ValueError\<close> is the only exception they handle. There an iteration whose read raises
  \<open>ValueError\<close> changes nothing but the number of reads made (and, in
  \<open>simple_camera_read\<close>, the number of clock values taken): no event, so no log
  message and no pause; and \<open>n\<close> failing reads in a row are retried for every \<open>n\<close>.
  Any other exception leaves the loop. In \<open>simple_pic\<close>, \<open>interpolated_pic\<close> and
  \<open>interpolated_camera_read\<close> every exception of the read, \<open>ValueError\<close> included, ends
  the mode at once.
\<close>

theorem ValueError_retry_sites:
  "(sensor env (reads a) = Raises e \<longrightarrow>
      print_mean_temp_body env a =
        (if e = ValueError then Continue (a\<lparr>reads := Suc (reads a)\<rparr>)
         else Throw e (a\<lparr>reads := Suc (reads a)\<rparr>)))
   \<and> (sensor env (reads l) = Raises e \<longrightarrow>
      simple_camera_read_body env l =
        (if e = ValueError then Continue (l\<lparr>reads := Suc (reads l), ticks := Suc (ticks l)\<rparr>)
         else Throw e (l\<lparr>reads := Suc (reads l), ticks := Suc (ticks l)\<rparr>)))
   \<and> ((\<forall>k<n. sensor env (reads a + k) = Raises ValueError) \<longrightarrow>
      while_true (print_mean_temp_body env) n a = Continue (a\<lparr>reads := reads a + n\<rparr>))
   \<and> ((\<forall>k<n. sensor env (reads l + k) = Raises ValueError) \<longrightarrow>
      while_true (simple_camera_read_body env) n l =
        Continue (l\<lparr>reads := reads l + n, ticks := ticks l + n\<rparr>))
   \<and> (sensor env (reads w) = Raises e \<longrightarrow>
      simple_pic env output_folder w =
        Raised e \<lparr>reads = Suc (reads w), ticks = ticks w, out = out w @ [Refresh_rate 2]\<rparr>)
   \<and> (sensor env (reads w) = Raises e \<longrightarrow>
      interpolated_pic env output_folder w =
        Raised e \<lparr>reads = Suc (reads w), ticks = ticks w,
                  out = out w @ [Refresh_rate 4, Log_debug ''Setting up plot'' [],
                                 Log_debug ''Updating plot'' [], Restore_region]\<rparr>)
   \<and> (sensor env (reads i) = Raises e \<longrightarrow>
      (\<exists>s'. interpolated_camera_read_body profiling env output_folder i = Throw e s'
            \<and> reads s' = Suc (reads i) \<and> out s' = out i @ [Restore_region]))"
proof (intro conjI impI)
  assume "sensor env (reads a) = Raises e"
  then show "print_mean_temp_body env a =
        (if e = ValueError then Continue (a\<lparr>reads := Suc (reads a)\<rparr>)
         else Throw e (a\<lparr>reads := Suc (reads a)\<rparr>))"
    by (simp add: pmt_body_ValueError pmt_body_other)
next
  assume "sensor env (reads l) = Raises e"
  then show "simple_camera_read_body env l =
        (if e = ValueError then Continue (l\<lparr>reads := Suc (reads l), ticks := Suc (ticks l)\<rparr>)
         else Throw e (l\<lparr>reads := Suc (reads l), ticks := Suc (ticks l)\<rparr>))"
    by (rule scr_body_Raises)
next
  assume a: "\<forall>k<n. sensor env (reads a + k) = Raises ValueError"
  have "while_true (print_mean_temp_body env) (n + 0) a =
        while_true (print_mean_temp_body env) 0 (a\<lparr>reads := reads a + n\<rparr>)"
    by (rule pmt_loop_retry) (simp add: a)
  then show "while_true (print_mean_temp_body env) n a = Continue (a\<lparr>reads := reads a + n\<rparr>)"
    by simp
next
  assume "\<forall>k<n. sensor env (reads l + k) = Raises ValueError"
  then show "while_true (simple_camera_read_body env) n l =
        Continue (l\<lparr>reads := reads l + n, ticks := ticks l + n\<rparr>)"
    by (intro scr_loop_retry) simp
next
  assume "sensor env (reads w) = Raises e"
  then show "simple_pic env output_folder w =
        Raised e \<lparr>reads = Suc (reads w), ticks = ticks w, out = out w @ [Refresh_rate 2]\<rparr>"
    by (rule simple_pic_Raises)
next
  assume "sensor env (reads w) = Raises e"
  then show "interpolated_pic env output_folder w =
        Raised e \<lparr>reads = Suc (reads w), ticks = ticks w,
                  out = out w @ [Refresh_rate 4, Log_debug ''Setting up plot'' [],
                                 Log_debug ''Updating plot'' [], Restore_region]\<rparr>"
    by (rule interpolated_pic_Raises)
next
  assume "sensor env (reads i) = Raises e"
  then show "\<exists>s'. interpolated_camera_read_body profiling env output_folder i = Throw e s'
            \<and> reads s' = Suc (reads i) \<and> out s' = out i @ [Restore_region]"
    by (rule icr_body_Raises)
qed

theorem ValueError_retry_sites_witness:
  "print_mean_temp_body dead_env (print_mean_temp_init w0) =
     Continue ((print_mean_temp_init w0)\<lparr>reads := 1\<rparr>)
   \<and> simple_camera_read_body dead_env (simple_camera_read_init w0) =
     Continue ((simple_camera_read_init w0)\<lparr>reads := 1, ticks := 1\<rparr>)
   \<and> while_true (print_mean_temp_body dead_env) 50 (print_mean_temp_init w0) =
     Continue ((print_mean_temp_init w0)\<lparr>reads := 50\<rparr>)
   \<and> while_true (simple_camera_read_body dead_env) 50 (simple_camera_read_init w0) =
     Continue ((simple_camera_read_init w0)\<lparr>reads := 50, ticks := 50\<rparr>)
   \<and> simple_pic dead_env ''out/'' w0 =
     Raised ValueError \<lparr>reads = 1, ticks = 0, out = [Refresh_rate 2]\<rparr>
   \<and> interpolated_pic dead_env ''out/'' w0 =
     Raised ValueError \<lparr>reads = 1, ticks = 0,
        out = [Refresh_rate 4, Log_debug ''Setting up plot'' [],
               Log_debug ''Updating plot'' [], Restore_region]\<rparr>
   \<and> (\<exists>s'. interpolated_camera_read_body False dead_env ''out/''
               (interpolated_camera_read_init False w0) = Throw ValueError s'
          \<and> reads s' = 1 \<and> out s' = [Refresh_rate 8, Restore_region])"
proof -
  have h: "sensor dead_env k = Raises ValueError" for k
    by (simp add: dead_env_def)
  have r: "reads (print_mean_temp_init w0) = 0" "reads (simple_camera_read_init w0) = 0"
    "ticks (simple_camera_read_init w0) = 0" "reads w0 = 0" "ticks w0 = 0" "out w0 = []"
    by (simp_all add: print_mean_temp_init_def simple_camera_read_init_def w0_def emit_def)
  show ?thesis
    using ValueError_retry_sites[where env = dead_env and e = ValueError
        and a = "print_mean_temp_init w0" and l = "simple_camera_read_init w0"
        and n = 50 and w = w0 and output_folder = "''out/''"
        and i = "interpolated_camera_read_init False w0" and profiling = False]
    by (simp add: h r init_simps)
qed


subsection \<open>Which modes loop for ever\<close>

text \<open>
  C9, as stated, fails: mode 2 (\<open>simple_pic\<close>) has no loop; on a sensor that answers
  it returns.
\<close>

theorem every_mode_loops_counterexample:
  "is_Returned (main False 2 good_env ''out/'' 0 w0)"
  using simple_pic_Frame[of good_env w0 "\<lambda>_. 20" "''out/''"]
  by (simp add: main_def good_env_def)


text \<open>
  C9, amended: the two live modes have no normal exit. \<open>simple_camera_read\<close> and, with
  profiling unset, \<open>interpolated_camera_read\<close> return for no number of iterations; they
  are still running after any number of iterations when no exception ends them (for
  \<open>simple_camera_read\<close>: the sensor raises nothing but \<open>ValueError\<close>; for
  \<open>interpolated_camera_read\<close>: the sensor always answers). The other three modes return
  when the first read answers: \<open>print_mean_temp\<close> leaves its loop, \<open>simple_pic\<close> and
  \<open>interpolated_pic\<close> make a single pass.
\<close>

theorem live_modes_never_return:
  "\<not> is_Returned (simple_camera_read env fuel w)
   \<and> \<not> is_Returned (interpolated_camera_read False env output_folder fuel w)
   \<and> ((\<forall>k e. sensor env k = Raises e \<longrightarrow> e = ValueError) \<longrightarrow>
        is_Running (simple_camera_read env fuel w))
   \<and> ((\<forall>k. \<exists>vals. sensor env k = Frame vals) \<longrightarrow>
        is_Running (interpolated_camera_read False env output_folder fuel w))
   \<and> ((\<exists>vals. sensor env (reads w) = Frame vals) \<longrightarrow>
        is_Returned (print_mean_temp env (Suc fuel) w)
        \<and> is_Returned (simple_pic env output_folder w)
        \<and> is_Returned (interpolated_pic env output_folder w))"
proof (intro conjI impI)
  show "\<not> is_Returned (simple_camera_read env fuel w)"
    by (rule simple_camera_read_not_Returned)
  show "\<not> is_Returned (interpolated_camera_read False env output_folder fuel w)"
    by (rule interpolated_camera_read_not_Returned)
next
  assume "\<forall>k e. sensor env k = Raises e \<longrightarrow> e = ValueError"
  then show "is_Running (simple_camera_read env fuel w)"
    by (rule simple_camera_read_Running)
next
  assume "\<forall>k. \<exists>vals. sensor env k = Frame vals"
  then show "is_Running (interpolated_camera_read False env output_folder fuel w)"
    by (rule interpolated_camera_read_Running)
next
  assume "\<exists>vals. sensor env (reads w) = Frame vals"
  then obtain vals where v: "sensor env (reads w) = Frame vals" ..
  from v show "is_Returned (print_mean_temp env (Suc fuel) w)" by (rule print_mean_temp_Frame)
  from v show "is_Returned (simple_pic env output_folder w)" by (rule simple_pic_Frame)
  from v show "is_Returned (interpolated_pic env output_folder w)" by (rule interpolated_pic_Frame)
qed


theorem live_modes_never_return_witness:
  "is_Running (simple_camera_read good_env 5 w0)
   \<and> is_Running (interpolated_camera_read False good_env ''out/'' 5 w0)
   \<and> is_Returned (print_mean_temp good_env 1 w0)
   \<and> is_Returned (simple_pic good_env ''out/'' w0)
   \<and> is_Returned (interpolated_pic good_env ''out/'' w0)"
proof -
  have h1: "\<forall>k e. sensor good_env k = Raises e \<longrightarrow> e = ValueError"
    by (simp add: good_env_def)
  have h2: "\<forall>k. \<exists>vals. sensor good_env k = Frame vals"
    by (simp add: good_env_def)
  have h3: "\<exists>vals. sensor good_env (reads w0) = Frame vals"
    by (simp add: good_env_def)
  show ?thesis
    using live_modes_never_return[of good_env 5 w0 "''out/''"]
          live_modes_never_return[of good_env 0 w0 "''out/''"] h1 h2 h3
    by simp
qed


subsection \<open>The frame-timing list\<close>

text \<open>
  C10: in \<open>interpolated_camera_read\<close> the list \<open>t_array\<close> has at most 10 elements after
  any number of iterations of the loop. An iteration that ends (by \<open>continue\<close> or
  \<open>break\<close>) appends one sample, the difference of its two clock values, and drops the
  oldest sample when that makes 11; a rate it prints is the rate of this list.
\<close>

theorem t_array_at_most_10:
  "length (t_array (ctl_state (interpolated_camera_read_loop profiling env output_folder fuel w))) \<le> 10
   \<and> (interpolated_camera_read_body profiling env output_folder st = Continue st'
        \<or> interpolated_camera_read_body profiling env output_folder st = Break st' \<longrightarrow>
      t_array st' =
        (let ts = t_array st @ [monotonic env (Suc (ticks st)) - monotonic env (ticks st)]
         in if length ts > 10 then drop 1 ts else ts)
      \<and> (\<forall>r. Print_rate r \<in> set (out st') \<longrightarrow>
             Print_rate r \<in> set (out st) \<or> r = fps (t_array st')))"
proof (intro conjI impI allI)
  show "length (t_array (ctl_state (interpolated_camera_read_loop profiling env output_folder fuel w))) \<le> 10"
    unfolding interpolated_camera_read_loop_def
    by (rule while_true_invariant[where P = "\<lambda>s. length (t_array s) \<le> 10"])
       (simp_all add: init_simps icr_body_t_array_le)
qed (use icr_body_step in blast)+

theorem t_array_at_most_10_witness:
  "length (t_array (ctl_state (interpolated_camera_read_loop False good_env ''out/'' 12 w0))) \<le> 10
   \<and> t_array (ctl_state (interpolated_camera_read_body False good_env ''out/''
                 (interpolated_camera_read_init False w0))) = [1]"
proof -
  let ?st = "interpolated_camera_read_init False w0"
  have v: "sensor good_env (reads ?st) = Frame (\<lambda>_. 20)" by (simp add: good_env_def)
  have l: "length (frame ?st) = 768" by (simp add: init_simps)
  have f: "monotonic good_env (ticks ?st) - last_update ?st > colorbar_update_interval"
    by (simp add: init_simps good_env_def w0_def colorbar_update_interval_def)
  from icr_body_full[OF v l f, of False "''out/''"]
  obtain s' where s': "interpolated_camera_read_body False good_env ''out/'' ?st = Continue s'"
    by auto
  note t = t_array_at_most_10[of False good_env "''out/''" 12 w0 ?st s']
  from t s' have "t_array s' = [1]"
    by (simp add: init_simps good_env_def w0_def)
  with t s' show ?thesis by simp
qed

subsection \<open>The profiling statistics\<close>

lemma plot_update_cc:
  "count_list (out (state_of (plot_update env full_update st))) Colorbar_changed =
   count_list (out st) Colorbar_changed +
     (if full_update \<and> is_Returned (plot_update env full_update st) then 1 else 0)"
  by (simp add: plot_update_def getFrame_def emit_def Let_def split: reading.splits sum.splits)

lemma plot_update_out_prefix:
  "\<exists>es. out (state_of (plot_update env full_update st)) = out st @ es
        \<and> (\<forall>p. Dump_stats p \<notin> set es)"
  by (simp add: plot_update_def getFrame_def emit_def Let_def split: reading.splits sum.splits)

lemma icr_body_profile:
  fixes st :: interp
  assumes "count st < 20"
  shows "interpolated_camera_read_body True env output_folder st = Continue s' \<Longrightarrow>
           count s' < 20
           \<and> count_list (out s') Colorbar_changed + count st =
               count_list (out st) Colorbar_changed + count s'
           \<and> (\<exists>es. out s' = out st @ es \<and> (\<forall>p. Dump_stats p \<notin> set es))"
    and "interpolated_camera_read_body True env output_folder st = Break s' \<Longrightarrow>
           count s' = 20
           \<and> count_list (out s') Colorbar_changed + count st =
               count_list (out st) Colorbar_changed + count s'
           \<and> (\<exists>es. out s' = out st @ es @
                 [Log_info ''Printing and dumping profiling stats'',
                  Profile_disable,
                  Dump_stats (output_folder @ ''profiling_stats.prof''),
                  Print_stats (output_folder @ ''profiling_stats.prof'') 50]
                 \<and> (\<forall>p. Dump_stats p \<notin> set es))"
proof -
  define t1 where "t1 = monotonic env (ticks st)"
  define fu where "fu = (t1 - last_update st > colorbar_update_interval)"
  define st1 where "st1 = (if fu then st\<lparr>ticks := Suc (ticks st), last_update := t1\<rparr>
                           else st\<lparr>ticks := Suc (ticks st)\<rparr>)"
  have t: "count st1 = count st" "out st1 = out st"
    by (simp_all add: st1_def)
  note b = icr_body_unfold[of True env output_folder st, unfolded Let_def,
      folded t1_def, folded fu_def, folded st1_def]
  note f = plot_update_fields(3)[of env fu st1] plot_update_cc[of env fu st1]
  obtain es where es: "out (state_of (plot_update env fu st1)) = out st1 @ es"
     "\<forall>p. Dump_stats p \<notin> set es"
    using plot_update_out_prefix[of env fu st1] by blast
  have nr: "\<not> is_Running (plot_update env fu st1)" by (rule plot_update_not_Running)
  show "interpolated_camera_read_body True env output_folder st = Continue s' \<Longrightarrow>
           count s' < 20
           \<and> count_list (out s') Colorbar_changed + count st =
               count_list (out st) Colorbar_changed + count s'
           \<and> (\<exists>es. out s' = out st @ es \<and> (\<forall>p. Dump_stats p \<notin> set es))"
  proof (cases "plot_update env fu st1")
    case (Running s2)
    with nr show ?thesis by simp
  next
    case (Returned u s2)
    assume "interpolated_camera_read_body True env output_folder st = Continue s'"
    with Returned f t es assms show ?thesis
      by (auto simp: b split: if_splits)
  next
    case (Raised e s2)
    assume "interpolated_camera_read_body True env output_folder st = Continue s'"
    with Raised show ?thesis by (simp add: b)
  qed
  show "interpolated_camera_read_body True env output_folder st = Break s' \<Longrightarrow>
           count s' = 20
           \<and> count_list (out s') Colorbar_changed + count st =
               count_list (out st) Colorbar_changed + count s'
           \<and> (\<exists>es. out s' = out st @ es @
                 [Log_info ''Printing and dumping profiling stats'',
                  Profile_disable,
                  Dump_stats (output_folder @ ''profiling_stats.prof''),
                  Print_stats (output_folder @ ''profiling_stats.prof'') 50]
                 \<and> (\<forall>p. Dump_stats p \<notin> set es))"
  proof (cases "plot_update env fu st1")
    case (Running s2)
    with nr show ?thesis by simp
  next
    case (Returned u s2)
    assume a: "interpolated_camera_read_body True env output_folder st = Break s'"
    from a Returned have fu: fu by (auto simp: b split: if_splits)
    let ?ts = "if 10 < length (t_array s2 @ [monotonic env (ticks s2) - t1])
               then drop 1 (t_array s2 @ [monotonic env (ticks s2) - t1])
               else t_array s2 @ [monotonic env (ticks s2) - t1]"
    from a Returned fu f t assms have c: "count s' = 20"
      and o: "out s' = out s2 @ [Print_rate (fps ?ts)] @
                 [Log_info ''Printing and dumping profiling stats'',
                  Profile_disable,
                  Dump_stats (output_folder @ ''profiling_stats.prof''),
                  Print_stats (output_folder @ ''profiling_stats.prof'') 50]"
      by (auto simp: b split: if_splits)
    from es Returned t have o2: "out s2 = out st @ es" by simp
    have cc: "count_list (out s2) Colorbar_changed = count_list (out st) Colorbar_changed + 1"
      using f(2) Returned fu t by simp
    have c2: "count s2 = count st" using f(1) Returned t by simp
    from a Returned fu have c3: "count s' = count s2 + 1" by (auto simp: b split: if_splits)
    have "count_list (out s') Colorbar_changed + count st =
               count_list (out st) Colorbar_changed + count s'"
      using o cc c2 c3 by simp
    moreover have "\<exists>es'. out s' = out st @ es' @
                 [Log_info ''Printing and dumping profiling stats'',
                  Profile_disable,
                  Dump_stats (output_folder @ ''profiling_stats.prof''),
                  Print_stats (output_folder @ ''profiling_stats.prof'') 50]
                 \<and> (\<forall>p. Dump_stats p \<notin> set es')"
      using o o2 es(2) by (intro exI[of _ "es @ [Print_rate (fps ?ts)]"]) simp
    ultimately show ?thesis using c by blast
  next
    case (Raised e s2)
    assume "interpolated_camera_read_body True env output_folder st = Break s'"
    with Raised show ?thesis by (simp add: b)
  qed
qed

lemma icr_loop_profile:
  fixes st :: interp
  assumes "count st < 20"
  shows "(while_true (interpolated_camera_read_body True env output_folder) n st = Continue s' \<longrightarrow>
           count s' < 20
           \<and> count_list (out s') Colorbar_changed + count st =
               count_list (out st) Colorbar_changed + count s'
           \<and> (\<exists>es. out s' = out st @ es \<and> (\<forall>p. Dump_stats p \<notin> set es)))
       \<and> (while_true (interpolated_camera_read_body True env output_folder) n st = Break s' \<longrightarrow>
           count s' = 20
           \<and> count_list (out s') Colorbar_changed + count st =
               count_list (out st) Colorbar_changed + count s'
           \<and> (\<exists>es. out s' = out st @ es @
                 [Log_info ''Printing and dumping profiling stats'',
                  Profile_disable,
                  Dump_stats (output_folder @ ''profiling_stats.prof''),
                  Print_stats (output_folder @ ''profiling_stats.prof'') 50]
                 \<and> (\<forall>p. Dump_stats p \<notin> set es)))"
  using assms
proof (induction n arbitrary: st)
  case 0
  then show ?case by auto
next
  case (Suc n)
  show ?case
  proof (cases "interpolated_camera_read_body True env output_folder st")
    case (Continue s1)
    from icr_body_profile(1)[OF Suc.prems Continue]
    obtain es1 where s1: "count s1 < 20"
      "count_list (out s1) Colorbar_changed + count st =
         count_list (out st) Colorbar_changed + count s1"
      "out s1 = out st @ es1" "\<forall>p. Dump_stats p \<notin> set es1" by blast
    note ih = Suc.IH[OF s1(1)]
    have w: "while_true (interpolated_camera_read_body True env output_folder) (Suc n) st =
             while_true (interpolated_camera_read_body True env output_folder) n s1"
      using Continue by simp
    show ?thesis
    proof (intro conjI impI)
      assume a: "while_true (interpolated_camera_read_body True env output_folder) (Suc n) st = Continue s'"
      with w ih obtain es where e: "count s' < 20"
        "count_list (out s') Colorbar_changed + count s1 =
           count_list (out s1) Colorbar_changed + count s'"
        "out s' = out s1 @ es" "\<forall>p. Dump_stats p \<notin> set es" by auto
      show "count s' < 20" by (rule e(1))
      show "count_list (out s') Colorbar_changed + count st =
               count_list (out st) Colorbar_changed + count s'"
        using e(2) s1(2) by linarith
      show "\<exists>es. out s' = out st @ es \<and> (\<forall>p. Dump_stats p \<notin> set es)"
        using e(3,4) s1(3,4) by (intro exI[of _ "es1 @ es"]) simp
    next
      assume a: "while_true (interpolated_camera_read_body True env output_folder) (Suc n) st = Break s'"
      with w ih obtain es where e: "count s' = 20"
        "count_list (out s') Colorbar_changed + count s1 =
           count_list (out s1) Colorbar_changed + count s'"
        "out s' = out s1 @ es @
                 [Log_info ''Printing and dumping profiling stats'',
                  Profile_disable,
                  Dump_stats (output_folder @ ''profiling_stats.prof''),
                  Print_stats (output_folder @ ''profiling_stats.prof'') 50]"
        "\<forall>p. Dump_stats p \<notin> set es" by auto
      show "count s' = 20" by (rule e(1))
      show "count_list (out s') Colorbar_changed + count st =
               count_list (out st) Colorbar_changed + count s'"
        using e(2) s1(2) by linarith
      show "\<exists>es. out s' = out st @ es @
                 [Log_info ''Printing and dumping profiling stats'',
                  Profile_disable,
                  Dump_stats (output_folder @ ''profiling_stats.prof''),
                  Print_stats (output_folder @ ''profiling_stats.prof'') 50]
                 \<and> (\<forall>p. Dump_stats p \<notin> set es)"
        using e(3,4) s1(3,4) by (intro exI[of _ "es1 @ es"]) simp
    qed
  next
    case (Break s1)
    from icr_body_profile(2)[OF Suc.prems Break] Break show ?thesis by auto
  next
    case (Throw e s1)
    then show ?thesis by simp
  qed
qed

lemma script_profile_Returned:
  assumes "script True 5 cfg env fuel = Returned () w'"
  shows "\<exists>folder es. cfg_get cfg ''FILEPATHS'' ''output_folder'' = Inr folder
           \<and> out w' = es @
                 [Log_info ''Printing and dumping profiling stats'',
                  Profile_disable,
                  Dump_stats (folder @ ''profiling_stats.prof''),
                  Print_stats (folder @ ''profiling_stats.prof'') 50]
           \<and> (\<forall>p. Dump_stats p \<notin> set es)
           \<and> count_list (out w') Colorbar_changed = 20"
proof (cases "cfg_get cfg ''FILEPATHS'' ''output_folder''")
  case (Inl e)
  with assms show ?thesis by (simp add: script_def)
next
  case (Inr folder)
  define w where "w = emit [Log_debug ''Config file sections found: '' (cfg_sections cfg),
                    Log_debug ''Reading config file and initializing variables...'' []] w0"
  define st where "st = interpolated_camera_read_init True w"
  have o: "out st = [Log_debug ''Config file sections found: '' (cfg_sections cfg),
                    Log_debug ''Reading config file and initializing variables...'' [],
                    Refresh_rate 8, Profile_enable]"
    by (simp add: st_def w_def init_simps emit_def w0_def)
  have c0: "count st = 0" by (simp add: st_def init_simps)
  then have c: "count st < 20" by simp
  from assms Inr have r: "interpolated_camera_read True env folder fuel w = Returned () w'"
    by (simp add: script_def main_def w_def)
  then obtain s' where s': "while_true (interpolated_camera_read_body True env folder) fuel st = Break s'"
    "w' = world_of s'"
    by (cases "while_true (interpolated_camera_read_body True env folder) fuel st")
       (auto simp: interpolated_camera_read_def interpolated_camera_read_loop_def st_def)
  from icr_loop_profile[OF c, of env folder fuel s'] s'(1)
  obtain es where e: "count s' = 20"
     "count_list (out s') Colorbar_changed + count st =
               count_list (out st) Colorbar_changed + count s'"
     "out s' = out st @ es @
                 [Log_info ''Printing and dumping profiling stats'',
                  Profile_disable,
                  Dump_stats (folder @ ''profiling_stats.prof''),
                  Print_stats (folder @ ''profiling_stats.prof'') 50]"
     "\<forall>p. Dump_stats p \<notin> set es" by blast
  have "count_list (out w') Colorbar_changed = 20"
    using e(1,2) s'(2) c0 by (simp add: o)
  moreover have "out w' = (out st @ es) @
                 [Log_info ''Printing and dumping profiling stats'',
                  Profile_disable,
                  Dump_stats (folder @ ''profiling_stats.prof''),
                  Print_stats (folder @ ''profiling_stats.prof'') 50]"
    using e(3) s'(2) by simp
  moreover have "\<forall>p. Dump_stats p \<notin> set (out st @ es)"
    using e(4) by (simp add: o)
  ultimately show ?thesis using Inr by blast
qed

text \<open>No mode writes profiling statistics when profiling is off.\<close>

lemma pmt_body_out: "out (ctl_state (print_mean_temp_body env st)) = out st"
  by (simp add: print_mean_temp_body_def getFrame_def split: reading.splits)

lemma print_mean_temp_no_dump:
  "Dump_stats p \<in> set (out (state_of (print_mean_temp env fuel w))) \<Longrightarrow> Dump_stats p \<in> set (out w)"
proof -
  have "out (ctl_state (print_mean_temp_loop env fuel w)) = out w"
    unfolding print_mean_temp_loop_def
    by (rule while_true_invariant[where P = "\<lambda>s. out s = out w"])
       (simp_all add: print_mean_temp_init_def pmt_body_out)
  then show "Dump_stats p \<in> set (out (state_of (print_mean_temp env fuel w))) \<Longrightarrow>
     Dump_stats p \<in> set (out w)"
    by (cases "print_mean_temp_loop env fuel w")
       (auto simp: print_mean_temp_def Let_def emit_def)
qed

lemma simple_pic_no_dump:
  "Dump_stats p \<in> set (out (state_of (simple_pic env output_folder w))) \<Longrightarrow>
   Dump_stats p \<in> set (out w)"
  by (auto simp: simple_pic_def getFrame_def emit_def Let_def
      split: reading.splits sum.splits)

lemma interpolated_pic_no_dump:
  "Dump_stats p \<in> set (out (state_of (interpolated_pic env output_folder w))) \<Longrightarrow>
   Dump_stats p \<in> set (out w)"
  by (auto simp: interpolated_pic_def getFrame_def emit_def Let_def
      split: reading.splits sum.splits)

lemma scr_body_no_dump:
  "Dump_stats p \<in> set (out (ctl_state (simple_camera_read_body env st))) \<Longrightarrow>
   Dump_stats p \<in> set (out st)"
  by (auto simp: simple_camera_read_body_def time_monotonic_def getFrame_def emit_def Let_def
      split: reading.splits sum.splits if_splits)

lemma simple_camera_read_no_dump:
  assumes "Dump_stats p \<in> set (out (state_of (simple_camera_read env fuel w)))"
  shows "Dump_stats p \<in> set (out w)"
proof (rule ccontr)
  assume n: "Dump_stats p \<notin> set (out w)"
  have "Dump_stats p \<notin> set (out (ctl_state (simple_camera_read_loop env fuel w)))"
    unfolding simple_camera_read_loop_def
    by (rule while_true_invariant[where P = "\<lambda>s. Dump_stats p \<notin> set (out s)"])
       (use n scr_body_no_dump in \<open>auto simp: simple_camera_read_init_def emit_def Let_def\<close>)
  with assms show False
    by (cases "simple_camera_read_loop env fuel w") (auto simp: simple_camera_read_def)
qed

lemma icr_body_no_dump:
  assumes "Dump_stats p \<in> set (out (ctl_state (interpolated_camera_read_body False env output_folder st)))"
  shows "Dump_stats p \<in> set (out st)"
proof -
  define t1 where "t1 = monotonic env (ticks st)"
  define fu where "fu = (t1 - last_update st > colorbar_update_interval)"
  define st1 where "st1 = (if fu then st\<lparr>ticks := Suc (ticks st), last_update := t1\<rparr>
                           else st\<lparr>ticks := Suc (ticks st)\<rparr>)"
  have t: "out st1 = out st" by (simp add: st1_def)
  note b = icr_body_unfold[of False env output_folder st, unfolded Let_def,
      folded t1_def, folded fu_def, folded st1_def]
  show ?thesis
    using plot_update_Dump_stats[of p env fu st1] t assms
    by (cases "plot_update env fu st1") (auto simp: b split: if_splits)
qed

lemma interpolated_camera_read_no_dump:
  assumes "Dump_stats p \<in> set (out (state_of (interpolated_camera_read False env output_folder fuel w)))"
  shows "Dump_stats p \<in> set (out w)"
proof (rule ccontr)
  assume n: "Dump_stats p \<notin> set (out w)"
  have "Dump_stats p \<notin> set (out (ctl_state (interpolated_camera_read_loop False env output_folder fuel w)))"
    unfolding interpolated_camera_read_loop_def
    by (rule while_true_invariant[where P = "\<lambda>s. Dump_stats p \<notin> set (out s)"])
       (use n icr_body_no_dump in \<open>auto simp: init_simps\<close>)
  with assms show False
    by (cases "interpolated_camera_read_loop False env output_folder fuel w")
       (auto simp: interpolated_camera_read_def)
qed

lemma state_of_forget [simp]: "state_of (forget r) = state_of r"
  by (cases r) (simp_all add: forget_def)

lemma script_no_dump:
  "Dump_stats p \<notin> set (out (state_of (script False mode cfg env fuel)))"
proof
  assume a: "Dump_stats p \<in> set (out (state_of (script False mode cfg env fuel)))"
  define w where "w = emit [Log_debug ''Config file sections found: '' (cfg_sections cfg),
                    Log_debug ''Reading config file and initializing variables...'' []] w0"
  have n: "Dump_stats p \<notin> set (out w)" by (simp add: w_def emit_def w0_def)
  show False
  proof (cases "cfg_get cfg ''FILEPATHS'' ''output_folder''")
    case (Inl e)
    with a n show False by (simp add: script_def w_def)
  next
    case (Inr folder)
    with a have m: "Dump_stats p \<in> set (out (state_of (main False mode env folder fuel w)))"
      by (simp add: script_def w_def)
    then have "Dump_stats p \<in> set (out w)"
      using print_mean_temp_no_dump[of p env fuel w] simple_pic_no_dump[of p env folder w]
        simple_camera_read_no_dump[of p env fuel w] interpolated_pic_no_dump[of p env folder w]
        interpolated_camera_read_no_dump[of p env folder fuel w]
      by (auto simp: main_def emit_def split: if_splits)
    with n show False by simp
  qed
qed

lemma clock_mono:
  assumes "\<forall>k. monotonic env k \<le> monotonic env (Suc k)"
  shows "k \<le> m \<Longrightarrow> monotonic env k \<le> monotonic env m"
proof (induction m)
  case 0
  then show ?case by simp
next
  case (Suc m)
  show ?case
  proof (cases "k = Suc m")
    case True
    then show ?thesis by simp
  next
    case False
    with Suc.prems have "k \<le> m" by simp
    then have "monotonic env k \<le> monotonic env m" by (rule Suc.IH)
    also have "\<dots> \<le> monotonic env (Suc m)" using assms by blast
    finally show ?thesis .
  qed
qed

lemma clock_passes:
  assumes "\<forall>k. monotonic env k \<le> monotonic env (Suc k)" and "\<forall>T. \<exists>k. T < monotonic env k"
  shows "\<exists>i. monotonic env (t + 2 * i) - l > colorbar_update_interval"
proof -
  from assms(2) obtain k where k: "l + colorbar_update_interval < monotonic env k" by blast
  have "k \<le> t + 2 * k" by simp
  then have "monotonic env k \<le> monotonic env (t + 2 * k)"
    by (rule clock_mono[OF assms(1)])
  with k have "monotonic env (t + 2 * k) - l > colorbar_update_interval" by linarith
  then show ?thesis by (rule exI)
qed

lemma icr_one_full:
  fixes st :: interp
  assumes "sensor env (reads st) = Frame vals" and "length (frame st) = 768"
      and "monotonic env (ticks st) - last_update st > colorbar_update_interval"
  shows "\<exists>s'. (while_true (interpolated_camera_read_body profiling env output_folder) (Suc 0) st = Break s'
                   \<and> profiling \<and> count st + 1 \<ge> 20)
              \<or> (while_true (interpolated_camera_read_body profiling env output_folder) (Suc 0) st = Continue s'
                   \<and> count s' = count st + 1 \<and> length (frame s') = 768
                   \<and> \<not> (profiling \<and> count st + 1 \<ge> 20))"
proof -
  from icr_body_full[OF assms, of profiling output_folder]
  obtain s' where s': "interpolated_camera_read_body profiling env output_folder st =
            (if profiling \<and> count st + 1 \<ge> 20 then Break s' else Continue s')"
      "count s' = count st + 1" "length (frame s') = 768" by blast
  show ?thesis
  proof (cases "profiling \<and> count st + 1 \<ge> 20")
    case True
    with s'(1) have "while_true (interpolated_camera_read_body profiling env output_folder) (Suc 0) st = Break s'"
      by simp
    with True show ?thesis by blast
  next
    case False
    with s'(1) have "while_true (interpolated_camera_read_body profiling env output_folder) (Suc 0) st = Continue s'"
      by simp
    with False s'(2,3) show ?thesis by blast
  qed
qed

lemma icr_next_full:
  fixes st :: interp
  assumes "\<forall>k. \<exists>vals. sensor env k = Frame vals"
  shows "length (frame st) = 768 \<Longrightarrow>
         monotonic env (ticks st + 2 * i) - last_update st > colorbar_update_interval \<Longrightarrow>
         \<exists>n s'. (while_true (interpolated_camera_read_body profiling env output_folder) n st = Break s'
                   \<and> profiling \<and> count st + 1 \<ge> 20)
              \<or> (while_true (interpolated_camera_read_body profiling env output_folder) n st = Continue s'
                   \<and> count s' = count st + 1 \<and> length (frame s') = 768
                   \<and> \<not> (profiling \<and> count st + 1 \<ge> 20))"
proof (induction i arbitrary: st)
  case 0
  obtain vals where v: "sensor env (reads st) = Frame vals" using assms by blast
  from 0 have f: "monotonic env (ticks st) - last_update st > colorbar_update_interval" by simp
  from icr_one_full[OF v "0.prems"(1) f, of profiling output_folder]
  show ?case by (rule exI[of _ "Suc 0"])
next
  case (Suc i)
  obtain vals where v: "sensor env (reads st) = Frame vals" using assms by blast
  show ?case
  proof (cases "monotonic env (ticks st) - last_update st > colorbar_update_interval")
    case True
    from icr_one_full[OF v Suc.prems(1) True, of profiling output_folder]
    show ?thesis by (rule exI[of _ "Suc 0"])
  next
    case False
    from icr_body_nonfull[OF v Suc.prems(1) False, of profiling output_folder]
    obtain s1 where s1: "interpolated_camera_read_body profiling env output_folder st = Continue s1"
      "count s1 = count st" "ticks s1 = ticks st + 2" "length (frame s1) = 768"
      "last_update s1 = last_update st" by blast
    have e: "ticks s1 + 2 * i = ticks st + 2 * Suc i" using s1(3) by simp
    have "monotonic env (ticks s1 + 2 * i) - last_update s1 > colorbar_update_interval"
      unfolding e s1(5) by (rule Suc.prems(2))
    from Suc.IH[OF s1(4) this]
    obtain n s' where n:
      "(while_true (interpolated_camera_read_body profiling env output_folder) n s1 = Break s'
                   \<and> profiling \<and> count s1 + 1 \<ge> 20)
       \<or> (while_true (interpolated_camera_read_body profiling env output_folder) n s1 = Continue s'
                   \<and> count s' = count s1 + 1 \<and> length (frame s') = 768
                   \<and> \<not> (profiling \<and> count s1 + 1 \<ge> 20))" by blast
    have w: "while_true (interpolated_camera_read_body profiling env output_folder) (Suc n) st =
          while_true (interpolated_camera_read_body profiling env output_folder) n s1"
      using s1(1) by simp
    have "(while_true (interpolated_camera_read_body profiling env output_folder) (Suc n) st = Break s'
                   \<and> profiling \<and> count st + 1 \<ge> 20)
       \<or> (while_true (interpolated_camera_read_body profiling env output_folder) (Suc n) st = Continue s'
                   \<and> count s' = count st + 1 \<and> length (frame s') = 768
                   \<and> \<not> (profiling \<and> count st + 1 \<ge> 20))"
      using n unfolding w s1(2) .
    then show ?thesis by blast
  qed
qed

lemma icr_reaches_break:
  fixes st :: interp
  assumes "\<forall>k. \<exists>vals. sensor env k = Frame vals"
      and "\<forall>k. monotonic env k \<le> monotonic env (Suc k)"
      and "\<forall>T. \<exists>k. T < monotonic env k"
  shows "length (frame st) = 768 \<Longrightarrow>
         \<exists>n s'. while_true (interpolated_camera_read_body True env output_folder) n st = Break s'"
proof (induction "19 - count st" arbitrary: st rule: less_induct)
  case less
  obtain i where i: "monotonic env (ticks st + 2 * i) - last_update st > colorbar_update_interval"
    using clock_passes[OF assms(2,3)] by blast
  from icr_next_full[OF assms(1) less.prems i, of True output_folder]
  obtain n s1 where n:
      "(while_true (interpolated_camera_read_body True env output_folder) n st = Break s1
                   \<and> True \<and> count st + 1 \<ge> 20)
       \<or> (while_true (interpolated_camera_read_body True env output_folder) n st = Continue s1
                   \<and> count s1 = count st + 1 \<and> length (frame s1) = 768
                   \<and> \<not> (True \<and> count st + 1 \<ge> 20))" by blast
  then show ?case
  proof
    assume "while_true (interpolated_camera_read_body True env output_folder) n st = Break s1
                   \<and> True \<and> count st + 1 \<ge> 20"
    then show ?thesis by blast
  next
    assume a: "while_true (interpolated_camera_read_body True env output_folder) n st = Continue s1
                   \<and> count s1 = count st + 1 \<and> length (frame s1) = 768
                   \<and> \<not> (True \<and> count st + 1 \<ge> 20)"
    from a have c1: "count s1 = count st + 1" and c2: "\<not> count st + 1 \<ge> 20" by blast+
    from c1 c2 have c: "19 - count s1 < 19 - count st" by arith
    from a have l: "length (frame s1) = 768" by blast
    from less.hyps[OF c l]
    obtain m s' where m: "while_true (interpolated_camera_read_body True env output_folder) m s1 = Break s'"
      by blast
    from a have w: "while_true (interpolated_camera_read_body True env output_folder) n st = Continue s1"
      by blast
    have "while_true (interpolated_camera_read_body True env output_folder) (n + m) st = Break s'"
      by (simp add: while_true_add w m)
    then show ?thesis by blast
  qed
qed

lemma script_profile_returns:
  assumes "cfg_get cfg ''FILEPATHS'' ''output_folder'' = Inr folder"
      and "\<forall>k. \<exists>vals. sensor env k = Frame vals"
      and "\<forall>k. monotonic env k \<le> monotonic env (Suc k)"
      and "\<forall>T. \<exists>k. T < monotonic env k"
  shows "\<exists>fuel w'. script True 5 cfg env fuel = Returned () w'"
proof -
  define w where "w = emit [Log_debug ''Config file sections found: '' (cfg_sections cfg),
                    Log_debug ''Reading config file and initializing variables...'' []] w0"
  have "length (frame (interpolated_camera_read_init True w)) = 768" by (simp add: init_simps)
  from icr_reaches_break[OF assms(2,3,4) this, of folder]
  obtain n s' where "while_true (interpolated_camera_read_body True env folder) n
                       (interpolated_camera_read_init True w) = Break s'" by blast
  then have "script True 5 cfg env n = Returned () (world_of s')"
    using assms(1)
    by (simp add: script_def main_def w_def interpolated_camera_read_def
          interpolated_camera_read_loop_def)
  then show ?thesis by blast
qed

lemma script_profile_Running:
  assumes "is_Running (script True 5 cfg env fuel)"
  shows "Dump_stats p \<notin> set (out (state_of (script True 5 cfg env fuel)))"
proof (cases "cfg_get cfg ''FILEPATHS'' ''output_folder''")
  case (Inl e)
  with assms show ?thesis by (simp add: script_def)
next
  case (Inr folder)
  define w where "w = emit [Log_debug ''Config file sections found: '' (cfg_sections cfg),
                    Log_debug ''Reading config file and initializing variables...'' []] w0"
  define st where "st = interpolated_camera_read_init True w"
  have o: "out st = [Log_debug ''Config file sections found: '' (cfg_sections cfg),
                    Log_debug ''Reading config file and initializing variables...'' [],
                    Refresh_rate 8, Profile_enable]"
    by (simp add: st_def w_def init_simps emit_def w0_def)
  have c: "count st < 20" by (simp add: st_def init_simps)
  have s: "script True 5 cfg env fuel = interpolated_camera_read True env folder fuel w"
    using Inr by (simp add: script_def main_def w_def)
  with assms obtain s' where s':
    "while_true (interpolated_camera_read_body True env folder) fuel st = Continue s'"
    "state_of (script True 5 cfg env fuel) = world_of s'"
    by (cases "while_true (interpolated_camera_read_body True env folder) fuel st")
       (auto simp: interpolated_camera_read_def interpolated_camera_read_loop_def st_def)
  from icr_loop_profile[OF c, of env folder fuel s'] s'(1)
  obtain es where "out s' = out st @ es" "\<forall>p. Dump_stats p \<notin> set es" by blast
  then show ?thesis using s'(2) by (simp add: o)
qed

text \<open>
  C8: the flag is the constant \<open>profiling\<close>. With the flag unset no mode ever writes a
  profiling-statistics file, after any number of iterations. With the flag set, mode 5
  (\<open>interpolated_camera_read\<close>) writes none while its loop runs; when it returns it
  has just dumped the statistics to \<open>profiling_stats.prof\<close> in the configured output
  folder, as the last thing it did, after exactly 20 full colorbar updates; and it does
  return when the sensor always answers and the clock never goes back and passes every
  bound.
\<close>

theorem profiling_stats_file:
  "(\<forall>p. Dump_stats p \<notin> set (out (state_of (script False mode cfg env fuel))))
   \<and> (is_Running (script True 5 cfg env fuel) \<longrightarrow>
        (\<forall>p. Dump_stats p \<notin> set (out (state_of (script True 5 cfg env fuel)))))
   \<and> (script True 5 cfg env fuel = Returned () w' \<longrightarrow>
        (\<exists>folder es. cfg_get cfg ''FILEPATHS'' ''output_folder'' = Inr folder
           \<and> out w' = es @
                 [Log_info ''Printing and dumping profiling stats'',
                  Profile_disable,
                  Dump_stats (folder @ ''profiling_stats.prof''),
                  Print_stats (folder @ ''profiling_stats.prof'') 50]
           \<and> (\<forall>p. Dump_stats p \<notin> set es)
           \<and> count_list (out w') Colorbar_changed = 20))
   \<and> (cfg_get cfg ''FILEPATHS'' ''output_folder'' = Inr folder
        \<and> (\<forall>k. \<exists>vals. sensor env k = Frame vals)
        \<and> (\<forall>k. monotonic env k \<le> monotonic env (Suc k))
        \<and> (\<forall>T. \<exists>k. T < monotonic env k) \<longrightarrow>
        (\<exists>fuel w'. script True 5 cfg env fuel = Returned () w'))"
proof (intro conjI impI allI)
  fix p
  show "Dump_stats p \<notin> set (out (state_of (script False mode cfg env fuel)))"
    by (rule script_no_dump)
next
  fix p
  assume "is_Running (script True 5 cfg env fuel)"
  then show "Dump_stats p \<notin> set (out (state_of (script True 5 cfg env fuel)))"
    by (rule script_profile_Running)
next
  assume "script True 5 cfg env fuel = Returned () w'"
  then show "\<exists>folder es. cfg_get cfg ''FILEPATHS'' ''output_folder'' = Inr folder
           \<and> out w' = es @
                 [Log_info ''Printing and dumping profiling stats'',
                  Profile_disable,
                  Dump_stats (folder @ ''profiling_stats.prof''),
                  Print_stats (folder @ ''profiling_stats.prof'') 50]
           \<and> (\<forall>p. Dump_stats p \<notin> set es)
           \<and> count_list (out w') Colorbar_changed = 20"
    by (rule script_profile_Returned)
next
  assume a: "cfg_get cfg ''FILEPATHS'' ''output_folder'' = Inr folder
        \<and> (\<forall>k. \<exists>vals. sensor env k = Frame vals)
        \<and> (\<forall>k. monotonic env k \<le> monotonic env (Suc k))
        \<and> (\<forall>T. \<exists>k. T < monotonic env k)"
  show "\<exists>fuel w'. script True 5 cfg env fuel = Returned () w'"
    by (rule script_profile_returns[of cfg folder env]) (use a in blast)+
qed


theorem profiling_stats_file_witness:
  "Dump_stats ''out/profiling_stats.prof'' \<notin> set (out (state_of (script False 5 example_cfg good_env 100)))
   \<and> (\<exists>fuel w' es. script True 5 example_cfg good_env fuel = Returned () w'
        \<and> out w' = es @
                 [Log_info ''Printing and dumping profiling stats'',
                  Profile_disable,
                  Dump_stats ''out/profiling_stats.prof'',
                  Print_stats ''out/profiling_stats.prof'' 50]
        \<and> count_list (out w') Colorbar_changed = 20)"
proof
  show "Dump_stats ''out/profiling_stats.prof'' \<notin> set (out (state_of (script False 5 example_cfg good_env 100)))"
    using profiling_stats_file[of 5 example_cfg good_env 100] by blast
next
  have g: "cfg_get example_cfg ''FILEPATHS'' ''output_folder'' = Inr ''out/''"
    by (simp add: example_cfg_def)
  have h1: "\<forall>k. \<exists>vals. sensor good_env k = Frame vals" by (simp add: good_env_def)
  have h2: "\<forall>k. monotonic good_env k \<le> monotonic good_env (Suc k)" by (simp add: good_env_def)
  have h3: "\<forall>T. \<exists>k. T < monotonic good_env k"
    by (simp add: good_env_def reals_Archimedean2)
  from profiling_stats_file[of 5 example_cfg good_env 0 w0 "''out/''"] g h1 h2 h3
  obtain fuel w' where r: "script True 5 example_cfg good_env fuel = Returned () w'" by blast
  from profiling_stats_file[of 5 example_cfg good_env fuel w'] r
  obtain folder es where e: "cfg_get example_cfg ''FILEPATHS'' ''output_folder'' = Inr folder"
    "out w' = es @
                 [Log_info ''Printing and dumping profiling stats'',
                  Profile_disable,
                  Dump_stats (folder @ ''profiling_stats.prof''),
                  Print_stats (folder @ ''profiling_stats.prof'') 50]"
    "count_list (out w') Colorbar_changed = 20" by blast
  from e(1) g have "folder = ''out/''" by simp
  with e(2) have "out w' = es @
                 [Log_info ''Printing and dumping profiling stats'',
                  Profile_disable,
                  Dump_stats ''out/profiling_stats.prof'',
                  Print_stats ''out/profiling_stats.prof'' 50]" by simp
  with r e(3) show "\<exists>fuel w' es. script True 5 example_cfg good_env fuel = Returned () w'
        \<and> out w' = es @
                 [Log_info ''Printing and dumping profiling stats'',
                  Profile_disable,
                  Dump_stats ''out/profiling_stats.prof'',
                  Print_stats ''out/profiling_stats.prof'' 50]
        \<and> count_list (out w') Colorbar_changed = 20" by blast
qed

subsection \<open>The configuration\<close>

lemma relocate_out_simps [simp]:
  "reads (relocate_out d st) = reads st"
  "ticks (relocate_out d st) = ticks st"
  "out (relocate_out d st) = map (relocate d) (out st)"
  by (simp_all add: relocate_out_def)

lemma relocate_out_fields [simp]:
  "frame (relocate_out d a) = frame a"
  "t_array (relocate_out d l) = t_array l"
  "last_update (relocate_out d i) = last_update i"
  "count (relocate_out d i) = count i"
  by (simp_all add: relocate_out_def)

lemma world_of_relocate: "world_of (relocate_out d st) = relocate_out d (world_of st)"
  by (simp add: world_of_def relocate_out_def)

lemma while_true_map:
  assumes "\<And>s. b1 (g s) = map_ctl g (b2 s)"
  shows "while_true b1 n (g s) = map_ctl g (while_true b2 n s)"
proof (induction n arbitrary: s)
  case 0
  then show ?case by simp
next
  case (Suc n)
  show ?case
    by (cases "b2 s") (simp_all add: assms Suc.IH)
qed

lemma getFrame_relocate:
  "getFrame env (relocate_out d st) = map_result id (relocate_out d) (getFrame env st)"
  by (simp add: getFrame_def relocate_out_def split: reading.splits)

lemma pmt_body_relocate:
  "print_mean_temp_body env (relocate_out d st) =
   map_ctl (relocate_out d) (print_mean_temp_body env st)"
  by (simp add: print_mean_temp_body_def getFrame_def relocate_out_def split: reading.splits)

lemma print_mean_temp_relocate:
  "print_mean_temp env fuel (relocate_out d w) =
   map_result id (relocate_out d) (print_mean_temp env fuel w)"
proof -
  have i: "print_mean_temp_init (relocate_out d w) = relocate_out d (print_mean_temp_init w)"
    by (simp add: print_mean_temp_init_def relocate_out_def)
  have l: "print_mean_temp_loop env fuel (relocate_out d w) =
           map_ctl (relocate_out d) (print_mean_temp_loop env fuel w)"
    unfolding print_mean_temp_loop_def i
    by (rule while_true_map) (rule pmt_body_relocate)
  show ?thesis
    unfolding print_mean_temp_def l
    by (cases "print_mean_temp_loop env fuel w")
       (simp_all add: world_of_def Let_def emit_def relocate_out_def)
qed

lemma simple_pic_relocate:
  "simple_pic env d (relocate_out d w) =
   map_result id (relocate_out d) (simple_pic env [] w)"
  by (simp add: simple_pic_def getFrame_def emit_def Let_def world_of_def relocate_out_def
      split: reading.splits sum.splits)

lemma interpolated_pic_relocate:
  "interpolated_pic env d (relocate_out d w) =
   map_result id (relocate_out d) (interpolated_pic env [] w)"
  by (simp add: interpolated_pic_def getFrame_def emit_def Let_def world_of_def relocate_out_def
      split: reading.splits sum.splits)

lemma scr_body_relocate:
  "simple_camera_read_body env (relocate_out d st) =
   map_ctl (relocate_out d) (simple_camera_read_body env st)"
  by (simp add: simple_camera_read_body_def time_monotonic_def getFrame_def emit_def Let_def
      relocate_out_def split: reading.splits sum.splits)

lemma simple_camera_read_relocate:
  "simple_camera_read env fuel (relocate_out d w) =
   map_result id (relocate_out d) (simple_camera_read env fuel w)"
proof -
  have i: "simple_camera_read_init (relocate_out d w) = relocate_out d (simple_camera_read_init w)"
    by (simp add: simple_camera_read_init_def relocate_out_def emit_def Let_def)
  have l: "simple_camera_read_loop env fuel (relocate_out d w) =
           map_ctl (relocate_out d) (simple_camera_read_loop env fuel w)"
    unfolding simple_camera_read_loop_def i
    by (rule while_true_map) (rule scr_body_relocate)
  show ?thesis
    unfolding simple_camera_read_def l
    by (cases "simple_camera_read_loop env fuel w")
       (simp_all add: world_of_def relocate_out_def)
qed

lemma plot_update_relocate:
  "plot_update env fu (relocate_out d st) =
   map_result id (relocate_out d) (plot_update env fu st)"
  by (simp add: plot_update_def getFrame_def emit_def Let_def relocate_out_def
      split: reading.splits sum.splits)

lemma icr_body_relocate:
  "interpolated_camera_read_body profiling env d (relocate_out d st) =
   map_ctl (relocate_out d) (interpolated_camera_read_body profiling env [] st)"
proof (cases "monotonic env (ticks st) - last_update st > colorbar_update_interval")
  case True
  let ?st1 = "st\<lparr>ticks := Suc (ticks st), last_update := monotonic env (ticks st)\<rparr>"
  have "(relocate_out d st)\<lparr>ticks := Suc (ticks st), last_update := monotonic env (ticks st)\<rparr>
          = relocate_out d ?st1"
    by (simp add: relocate_out_def)
  then have p: "plot_update env True
          ((relocate_out d st)\<lparr>ticks := Suc (ticks st), last_update := monotonic env (ticks st)\<rparr>)
        = map_result id (relocate_out d) (plot_update env True ?st1)"
    by (simp only: plot_update_relocate)
  show ?thesis
  proof (cases "plot_update env True ?st1")
    case (Running s2)
    with p True show ?thesis
      by (simp add: icr_body_unfold Let_def relocate_out_def)
  next
    case (Returned u s2)
    with p True show ?thesis
      by (simp add: icr_body_unfold Let_def relocate_out_def)
  next
    case (Raised e s2)
    with p True show ?thesis
      by (simp add: icr_body_unfold Let_def relocate_out_def)
  qed
next
  case False
  let ?st1 = "st\<lparr>ticks := Suc (ticks st)\<rparr>"
  have "(relocate_out d st)\<lparr>ticks := Suc (ticks st)\<rparr> = relocate_out d ?st1"
    by (simp add: relocate_out_def)
  then have p: "plot_update env False ((relocate_out d st)\<lparr>ticks := Suc (ticks st)\<rparr>)
        = map_result id (relocate_out d) (plot_update env False ?st1)"
    by (simp only: plot_update_relocate)
  show ?thesis
  proof (cases "plot_update env False ?st1")
    case (Running s2)
    with p False show ?thesis
      by (simp add: icr_body_unfold Let_def relocate_out_def)
  next
    case (Returned u s2)
    with p False show ?thesis
      by (simp add: icr_body_unfold Let_def relocate_out_def)
  next
    case (Raised e s2)
    with p False show ?thesis
      by (simp add: icr_body_unfold Let_def relocate_out_def)
  qed
qed

lemma interpolated_camera_read_relocate:
  "interpolated_camera_read profiling env d fuel (relocate_out d w) =
   map_result id (relocate_out d) (interpolated_camera_read profiling env [] fuel w)"
proof -
  have i: "interpolated_camera_read_init profiling (relocate_out d w) =
           relocate_out d (interpolated_camera_read_init profiling w)"
    by (simp add: interpolated_camera_read_init_def relocate_out_def emit_def Let_def)
  have l: "interpolated_camera_read_loop profiling env d fuel (relocate_out d w) =
           map_ctl (relocate_out d) (interpolated_camera_read_loop profiling env [] fuel w)"
    unfolding interpolated_camera_read_loop_def i
    by (rule while_true_map) (rule icr_body_relocate)
  show ?thesis
    unfolding interpolated_camera_read_def l
    by (cases "interpolated_camera_read_loop profiling env [] fuel w")
       (simp_all add: world_of_def relocate_out_def)
qed

lemma forget_map:
  "forget (map_result f g r) = map_result id g (forget r)"
  by (cases r) (simp_all add: forget_def)

lemma main_relocate:
  "main profiling mode env d fuel (relocate_out d w) =
   map_result id (relocate_out d) (main profiling mode env [] fuel w)"
proof -
  have e: "emit [Print_text s] (relocate_out d w) = relocate_out d (emit [Print_text s] w)" for s
    by (simp add: emit_def relocate_out_def)
  show ?thesis
    by (simp add: main_def print_mean_temp_relocate simple_pic_relocate
        simple_camera_read_relocate interpolated_pic_relocate interpolated_camera_read_relocate
        forget_map e)
qed

lemma written_simps [simp]:
  "written (Savefig p) = [p]" "written (Dump_stats p) = [p]"
  "written (Log_debug s ss) = []" "written (Log_info s) = []" "written (Refresh_rate n) = []"
  "written (Print_mean a b) = []" "written (Print_rate r) = []" "written (Print_text s) = []"
  "written (Set_data g) = []" "written (Set_clim lo hi) = []" "written Colorbar_changed = []"
  "written Pause = []" "written Restore_region = []" "written Draw_artist = []"
  "written Blit = []" "written Flush_events = []" "written Profile_enable = []"
  "written Profile_disable = []" "written (Print_stats p n) = []"
  by (simp_all add: written_def)

lemma files_emit: "files (emit es st) = files st \<union> set (concat (map written es))"
  by (simp add: files_def emit_def)

lemma files_world_of [simp]: "files (world_of st) = files st"
  by (simp add: files_def)

lemma getFrame_files: "files (state_of (getFrame env st)) = files st"
  by (simp add: getFrame_def files_def split: reading.splits)

lemma pmt_body_files: "files (ctl_state (print_mean_temp_body env st)) = files st"
  by (simp add: files_def pmt_body_out)

lemma print_mean_temp_files: "files (state_of (print_mean_temp env fuel w)) = files w"
proof -
  have i: "files (print_mean_temp_init w) = files w"
    by (simp add: files_def print_mean_temp_init_def)
  have "files (ctl_state (print_mean_temp_loop env fuel w)) = files w"
    unfolding print_mean_temp_loop_def
    by (rule while_true_invariant[where P = "\<lambda>s. files s = files w"])
       (simp_all add: i pmt_body_files)
  then show ?thesis
    by (cases "print_mean_temp_loop env fuel w")
       (simp_all add: print_mean_temp_def Let_def files_emit)
qed

lemma simple_pic_files:
  "files (state_of (simple_pic env output_folder w)) \<subseteq> files w \<union> output_files output_folder"
  by (auto simp: simple_pic_def getFrame_def emit_def Let_def files_def output_files_def
      split: reading.splits sum.splits)

lemma interpolated_pic_files:
  "files (state_of (interpolated_pic env output_folder w)) \<subseteq> files w \<union> output_files output_folder"
  by (auto simp: interpolated_pic_def getFrame_def emit_def Let_def files_def output_files_def
      split: reading.splits sum.splits)

lemma scr_body_files: "files (ctl_state (simple_camera_read_body env st)) = files st"
  by (auto simp: simple_camera_read_body_def time_monotonic_def getFrame_def emit_def Let_def
      files_def split: reading.splits sum.splits if_splits)

lemma simple_camera_read_files: "files (state_of (simple_camera_read env fuel w)) = files w"
proof -
  have i: "files (simple_camera_read_init w) = files w"
    by (simp add: files_def simple_camera_read_init_def emit_def Let_def)
  have "files (ctl_state (simple_camera_read_loop env fuel w)) = files w"
    unfolding simple_camera_read_loop_def
    by (rule while_true_invariant[where P = "\<lambda>s. files s = files w"])
       (simp_all add: i scr_body_files)
  then show ?thesis
    by (cases "simple_camera_read_loop env fuel w") (simp_all add: simple_camera_read_def)
qed

lemma plot_update_files: "files (state_of (plot_update env fu st)) = files st"
  by (simp add: plot_update_def getFrame_def emit_def Let_def files_def
      split: reading.splits sum.splits)

lemma icr_body_files:
  "files (ctl_state (interpolated_camera_read_body profiling env output_folder st))
     \<subseteq> files st \<union> output_files output_folder"
proof -
  define t1 where "t1 = monotonic env (ticks st)"
  define fu where "fu = (t1 - last_update st > colorbar_update_interval)"
  define st1 where "st1 = (if fu then st\<lparr>ticks := Suc (ticks st), last_update := t1\<rparr>
                           else st\<lparr>ticks := Suc (ticks st)\<rparr>)"
  have t: "files st1 = files st" by (simp add: st1_def files_def)
  note b = icr_body_unfold[of profiling env output_folder st, unfolded Let_def,
      folded t1_def, folded fu_def, folded st1_def]
  show ?thesis
  proof (cases "plot_update env fu st1")
    case (Running s2)
    with plot_update_files[of env fu st1] t show ?thesis by (simp add: b)
  next
    case (Returned u s2)
    with plot_update_files[of env fu st1] t have "files s2 = files st" by simp
    then have "set (concat (map written (out s2))) = files st" by (simp add: files_def)
    with Returned show ?thesis
      by (auto simp: b files_def output_files_def)
  next
    case (Raised e s2)
    with plot_update_files[of env fu st1] t show ?thesis by (simp add: b)
  qed
qed

lemma interpolated_camera_read_files:
  "files (state_of (interpolated_camera_read profiling env output_folder fuel w))
     \<subseteq> files w \<union> output_files output_folder"
proof -
  have i: "files (interpolated_camera_read_init profiling w) = files w"
    by (simp add: files_def init_simps)
  have "files (ctl_state (interpolated_camera_read_loop profiling env output_folder fuel w))
          \<subseteq> files w \<union> output_files output_folder"
    unfolding interpolated_camera_read_loop_def
  proof (rule while_true_invariant[where P = "\<lambda>s. files s \<subseteq> files w \<union> output_files output_folder"])
    show "files (interpolated_camera_read_init profiling w) \<subseteq> files w \<union> output_files output_folder"
      using i by simp
  next
    fix s :: interp
    assume "files s \<subseteq> files w \<union> output_files output_folder"
    with icr_body_files[of profiling env output_folder s]
    show "files (ctl_state (interpolated_camera_read_body profiling env output_folder s))
            \<subseteq> files w \<union> output_files output_folder" by blast
  qed
  then show ?thesis
    by (cases "interpolated_camera_read_loop profiling env output_folder fuel w")
       (simp_all add: interpolated_camera_read_def)
qed

lemma main_files:
  "files (state_of (main profiling mode env output_folder fuel w))
     \<subseteq> files w \<union> output_files output_folder"
  using print_mean_temp_files[of env fuel w] simple_pic_files[of env output_folder w]
    simple_camera_read_files[of env fuel w] interpolated_pic_files[of env output_folder w]
    interpolated_camera_read_files[of profiling env output_folder fuel w]
  by (auto simp: main_def files_emit)

lemma script_files:
  assumes "cfg_get cfg ''FILEPATHS'' ''output_folder'' = Inr folder"
  shows "files (state_of (script profiling mode cfg env fuel)) \<subseteq> output_files folder"
proof -
  define w where "w = emit [Log_debug ''Config file sections found: '' (cfg_sections cfg),
                    Log_debug ''Reading config file and initializing variables...'' []] w0"
  have f: "files w = {}" by (simp add: w_def files_def emit_def w0_def)
  have "script profiling mode cfg env fuel = main profiling mode env folder fuel w"
    using assms by (simp add: script_def w_def)
  with main_files[of profiling mode env folder fuel w] f show ?thesis by simp
qed

text \<open>
  C7: the run of the script depends on the configuration only through the value of
  \<open>output_folder\<close> in section \<open>FILEPATHS\<close> (and, for the first debug message, the list
  of section names): two configurations that agree on these give the same run. That
  value is used only as the prefix of file paths: the run is the run with the empty
  folder name, with the folder put in front of the path of every file event; and every
  file written is \<open>simple_pic.png\<close>, \<open>interp_pic.png\<close> or \<open>profiling_stats.prof\<close> in
  that folder.
\<close>

theorem output_folder_only:
  "(cfg_sections cfg = cfg_sections cfg'
      \<and> cfg_get cfg ''FILEPATHS'' ''output_folder'' = cfg_get cfg' ''FILEPATHS'' ''output_folder'' \<longrightarrow>
    script profiling mode cfg env fuel = script profiling mode cfg' env fuel)
   \<and> (cfg_get cfg ''FILEPATHS'' ''output_folder'' = Inr folder \<longrightarrow>
    script profiling mode cfg env fuel =
      map_result id (relocate_out folder)
        (script profiling mode (cfg\<lparr>cfg_get := (\<lambda>s opt. Inr [])\<rparr>) env fuel)
    \<and> files (state_of (script profiling mode cfg env fuel)) \<subseteq> output_files folder)"
proof (intro conjI impI)
  assume "cfg_sections cfg = cfg_sections cfg'
      \<and> cfg_get cfg ''FILEPATHS'' ''output_folder'' = cfg_get cfg' ''FILEPATHS'' ''output_folder''"
  then show "script profiling mode cfg env fuel = script profiling mode cfg' env fuel"
    by (simp add: script_def)
next
  assume a: "cfg_get cfg ''FILEPATHS'' ''output_folder'' = Inr folder"
  define w where "w = emit [Log_debug ''Config file sections found: '' (cfg_sections cfg),
                    Log_debug ''Reading config file and initializing variables...'' []] w0"
  have r: "relocate_out folder w = w"
    by (simp add: w_def emit_def w0_def relocate_out_def)
  have "script profiling mode cfg env fuel = main profiling mode env folder fuel (relocate_out folder w)"
    using a by (simp add: script_def w_def[symmetric] r)
  also have "\<dots> = map_result id (relocate_out folder) (main profiling mode env [] fuel w)"
    by (rule main_relocate)
  also have "main profiling mode env [] fuel w =
      script profiling mode (cfg\<lparr>cfg_get := (\<lambda>s opt. Inr [])\<rparr>) env fuel"
    by (simp add: script_def w_def)
  finally show "script profiling mode cfg env fuel =
      map_result id (relocate_out folder)
        (script profiling mode (cfg\<lparr>cfg_get := (\<lambda>s opt. Inr [])\<rparr>) env fuel)" .
  from a show "files (state_of (script profiling mode cfg env fuel)) \<subseteq> output_files folder"
    by (rule script_files)
qed


theorem output_folder_only_witness:
  "script False 2 example_cfg good_env 0 = script False 2 other_cfg good_env 0
   \<and> cfg_get example_cfg ''FILEPATHS'' ''log_folder'' \<noteq> cfg_get other_cfg ''FILEPATHS'' ''log_folder''
   \<and> script False 2 example_cfg good_env 0 =
       map_result id (relocate_out ''out/'')
         (script False 2 (example_cfg\<lparr>cfg_get := (\<lambda>s opt. Inr [])\<rparr>) good_env 0)
   \<and> files (state_of (script False 2 example_cfg good_env 0)) \<subseteq> output_files ''out/''
   \<and> ''out/simple_pic.png'' \<in> files (state_of (script False 2 example_cfg good_env 0))"
proof -
  have h1: "cfg_sections example_cfg = cfg_sections other_cfg
      \<and> cfg_get example_cfg ''FILEPATHS'' ''output_folder'' = cfg_get other_cfg ''FILEPATHS'' ''output_folder''"
    by (simp add: example_cfg_def other_cfg_def)
  have h2: "cfg_get example_cfg ''FILEPATHS'' ''output_folder'' = Inr ''out/''"
    by (simp add: example_cfg_def)
  have d: "cfg_get example_cfg ''FILEPATHS'' ''log_folder'' \<noteq> cfg_get other_cfg ''FILEPATHS'' ''log_folder''"
    by (simp add: example_cfg_def other_cfg_def)
  have f: "''out/simple_pic.png'' \<in> files (state_of (script False 2 example_cfg good_env 0))"
    by (simp add: script_def main_def simple_pic_def getFrame_def emit_def np_reshape_768
        files_def good_env_def example_cfg_def w0_def Let_def)
  from output_folder_only[of example_cfg other_cfg False 2 good_env 0 "''out/''"] h1 h2 d f
  show ?thesis by blast
qed

subsection \<open>Reshaping\<close>

text \<open>
  C6: for every buffer of 768 elements the reshape to \<open>mlx_shape\<close> does not raise and
  gives exactly one grid; the grid has 24 rows of 32 entries, and element \<open>i\<close> of the
  buffer is its entry in row \<open>i div 32\<close> and column \<open>i mod 32\<close>. (As a function of the
  buffer, it gives equal grids for equal buffers.)
\<close>

theorem np_reshape_frame:
  assumes "length a = 24 * 32"
  shows "\<exists>!g. np_reshape a mlx_shape = Inr g \<and> length g = 24 \<and>
              (\<forall>r<24. length (g ! r) = 32) \<and>
              (\<forall>i<768. g ! (i div 32) ! (i mod 32) = a ! i)"
proof -
  let ?g = "map (\<lambda>i. take 32 (drop (i * 32) a)) [0..<24]"
  have g: "np_reshape a mlx_shape = Inr ?g"
    using assms by (simp add: np_reshape_def mlx_shape_def)
  have len: "\<forall>r<24. length (?g ! r) = 32"
    using assms by auto
  have ent: "\<forall>i<768. ?g ! (i div 32) ! (i mod 32) = a ! i"
  proof (intro allI impI)
    fix i :: nat assume i: "i < 768"
    then have d: "i div 32 < 24" by simp
    have "?g ! (i div 32) ! (i mod 32) = take 32 (drop (i div 32 * 32) a) ! (i mod 32)"
      using d by simp
    also have "\<dots> = drop (i div 32 * 32) a ! (i mod 32)" by simp
    also have "\<dots> = a ! (i div 32 * 32 + i mod 32)"
      using assms i by (intro nth_drop) simp
    finally show "?g ! (i div 32) ! (i mod 32) = a ! i" by simp
  qed
  show ?thesis
    by (rule ex1I[of _ ?g]) (use g len ent in auto)
qed

theorem np_reshape_frame_witness:
  "length (map real [0..<768]) = 24 * 32 \<and>
   (\<exists>!g. np_reshape (map real [0..<768]) mlx_shape = Inr g \<and> length g = 24 \<and>
              (\<forall>r<24. length (g ! r) = 32) \<and>
              (\<forall>i<768. g ! (i div 32) ! (i mod 32) = map real [0..<768] ! i))"
proof -
  have h: "length (map real [0..<768]) = 24 * 32" by simp
  from np_reshape_frame[OF h] h show ?thesis by blast
qed


subsection \<open>Celsius to Fahrenheit\<close>

text \<open>
  C3: \<open>c_to_f\<close> is the affine map sending \<open>t\<close> to \<open>(9/5) * t + 32\<close>: it has slope \<open>9/5\<close>
  and offset \<open>32\<close>, it respects affine combinations, and it sends 0 to 32 and 100 to 212.
\<close>

theorem c_to_f_affine:
  "c_to_f t = (9 / 5) * t + 32
   \<and> c_to_f ((1 - l) * s + l * t) = (1 - l) * c_to_f s + l * c_to_f t
   \<and> c_to_f 0 = 32 \<and> c_to_f 100 = 212"
  by (simp add: c_to_f_def field_simps)

subsection \<open>Mirroring\<close>

text \<open>
  C5: the left-to-right flip is an involution: flipping a grid twice gives the grid back
  (for every grid, so for every 24 x 32 grid).
\<close>

theorem np_fliplr_involution: "np_fliplr (np_fliplr m) = m"
  by (simp add: np_fliplr_def comp_def)

end
